theory Spec2Isabelle
  imports Complex_Main
begin

section \<open>Errors and scalar helpers\<close>

text \<open>
  Numbers are real numbers: the tensor runtime's floating-point rounding is not part of
  the embedding. Every exception the Python source can raise on its own is a value of
  \<open>error\<close>; \<open>DanglingReference\<close> stands for a reference to no instance, which the index
  references of the embedding allow and the objects of the source do not. \<open>SyntaxError\<close> is
  what the Python compiler answers to a statement that it refuses.
\<close>

datatype error =
  ValueError | ZeroDivisionError | RuntimeError | AssertionError | EinopsError | KeyError
  | TypeError | SyntaxError | DanglingReference

text \<open>\<open>math.log\<close> raises ValueError outside its domain; \<open>/\<close> on floats raises on a zero divisor.\<close>

definition py_log :: "real \<Rightarrow> error + real" where
  "py_log v = (if v \<le> 0 then Inl ValueError else Inr (ln v))"

definition py_truediv :: "real \<Rightarrow> real \<Rightarrow> error + real" where
  "py_truediv a b = (if b = 0 then Inl ZeroDivisionError else Inr (a / b))"

definition ebind :: "error + 'a \<Rightarrow> ('a \<Rightarrow> error + 'b) \<Rightarrow> error + 'b" where
  "ebind m f = (case m of Inl e \<Rightarrow> Inl e | Inr v \<Rightarrow> f v)"

section \<open>Fourier position features\<close>

text \<open>
  \<open>torch.logspace(start, end, steps, base)\<close>: \<open>steps\<close> points \<open>base ^ e\<close> with the
  exponents \<open>e\<close> evenly spaced from \<open>start\<close> to \<open>end\<close>; a single step gives \<open>base ^ start\<close>,
  zero steps give the empty tensor, a negative count is rejected by the runtime.
\<close>

definition logspace :: "real \<Rightarrow> real \<Rightarrow> int \<Rightarrow> real \<Rightarrow> error + real list" where
  "logspace start end steps base =
     (if steps < 0 then Inl RuntimeError
      else if steps = 1 then Inr [base powr start]
      else Inr (map (\<lambda>i. base powr (start + real i * ((end - start) / real (nat steps - 1))))
                    [0..<nat steps]))"

text \<open>
  The coordinate array is given by its entries in row-major order (\<open>fourier_encode\<close> acts on
  every entry alike, whatever the leading shape); the result has one row per entry, the new
  trailing axis.
\<close>

definition unsqueeze_last :: "real list \<Rightarrow> real list list" where
  "unsqueeze_last x = map (\<lambda>v. [v]) x"

text \<open>\<open>x * scales\<close> for \<open>x\<close> of trailing size 1: broadcasting along the trailing axis.\<close>

definition mul_scales :: "real list list \<Rightarrow> real list \<Rightarrow> real list list" where
  "mul_scales x scales = map (\<lambda>r. concat (map (\<lambda>v. map (\<lambda>s. v * s) scales) r)) x"

definition fourier_encode :: "real list \<Rightarrow> real \<Rightarrow> int \<Rightarrow> real \<Rightarrow> error + real list list" where
  "fourier_encode x max_freq num_bands base =
     (let orig_x = unsqueeze_last x in
      ebind (py_log (max_freq / 2)) (\<lambda>a.
      ebind (py_log base) (\<lambda>c.
      ebind (py_truediv a c) (\<lambda>end.
      ebind (logspace 0 end num_bands base) (\<lambda>scales.
        let x1 = map (map (\<lambda>e. e * pi)) (mul_scales orig_x scales);
            x2 = map (\<lambda>r. map sin r @ map cos r) x1
        in Inr (map2 (@) x2 orig_x))))))"

text \<open>The scale sequence of the claim: \<open>n\<close> values log-spaced from \<open>base ^ 0\<close> to \<open>max_freq / 2\<close>.\<close>

definition band_scale :: "real \<Rightarrow> real \<Rightarrow> nat \<Rightarrow> nat \<Rightarrow> real" where
  "band_scale max_freq base n i =
     (if n = 1 then 1 else base powr (real i * (log base (max_freq / 2) / real (n - 1))))"

definition encoded_coord :: "real \<Rightarrow> real \<Rightarrow> nat \<Rightarrow> real \<Rightarrow> real list" where
  "encoded_coord max_freq base n v =
     map (\<lambda>i. sin (v * band_scale max_freq base n i * pi)) [0..<n]
     @ map (\<lambda>i. cos (v * band_scale max_freq base n i * pi)) [0..<n]
     @ [v]"

definition fourier_fails :: "real \<Rightarrow> int \<Rightarrow> real \<Rightarrow> bool" where
  "fourier_fails max_freq num_bands base \<longleftrightarrow>
     max_freq \<le> 0 \<or> base \<le> 0 \<or> base = 1 \<or> num_bands < 0"

section \<open>Modules and their parameters\<close>

type_synonym vec = "real list"
type_synonym mat = "real list list"

text \<open>\<open>nn.Linear\<close>: \<open>weight\<close> has one row per output feature; \<open>bias\<close> is absent for \<open>bias=False\<close>.\<close>

record linear =
  weight :: mat
  bias :: "vec option"

record layer_norm =
  ln_weight :: vec
  ln_bias :: vec
  ln_eps :: real

text \<open>
  \<open>dim_head ** -0.5\<close> is a float for a positive \<open>dim_head\<close> and a complex number for a
  negative one (Python's power on a negative base with a fractional exponent).
\<close>

datatype pynum = PyFloat real | PyComplex real real

record attention =
  scale :: pynum
  heads :: int
  to_q :: linear
  to_kv :: linear
  to_out :: linear
  to_out_dropout :: real

record feed_forward =
  net_in :: linear
  net_dropout :: real
  net_out :: linear

datatype sublayer = Attention attention | FeedForward feed_forward

record pre_norm =
  fn :: sublayer
  norm_layer :: layer_norm
  norm_context :: "layer_norm option"

section \<open>Construction\<close>

text \<open>
  The random initial values come from a stream \<open>rnd\<close> of draws, read from a position that
  the constructors advance. The runtime refuses a tensor with a negative size.
\<close>

definition randn :: "(nat \<Rightarrow> real) \<Rightarrow> int \<Rightarrow> int \<Rightarrow> nat \<Rightarrow> error + (mat \<times> nat)" where
  "randn rnd r c p =
     (if r < 0 \<or> c < 0 then Inl RuntimeError
      else Inr (map (\<lambda>i. map (\<lambda>j. rnd (p + i * nat c + j)) [0..<nat c]) [0..<nat r],
                p + nat r * nat c))"

definition new_Linear ::
  "(nat \<Rightarrow> real) \<Rightarrow> int \<Rightarrow> int \<Rightarrow> bool \<Rightarrow> nat \<Rightarrow> error + (linear \<times> nat)" where
  "new_Linear rnd in_features out_features with_bias p =
     ebind (randn rnd out_features in_features p) (\<lambda>(w, p1).
       if with_bias
       then ebind (randn rnd 1 out_features p1) (\<lambda>(b, p2).
              Inr (\<lparr>weight = w, bias = Some (concat b)\<rparr>, p2))
       else Inr (\<lparr>weight = w, bias = None\<rparr>, p1))"

definition new_LayerNorm :: "int \<Rightarrow> error + layer_norm" where
  "new_LayerNorm dm =
     (if dm < 0 then Inl RuntimeError
      else Inr \<lparr>ln_weight = replicate (nat dm) 1, ln_bias = replicate (nat dm) 0,
                ln_eps = 1 / 100000\<rparr>)"

definition new_Dropout :: "real \<Rightarrow> error + real" where
  "new_Dropout p = (if p < 0 \<or> 1 < p then Inl ValueError else Inr p)"

text \<open>\<open>dim_head ** -0.5\<close>.\<close>

definition inv_sqrt_pow :: "int \<Rightarrow> error + pynum" where
  "inv_sqrt_pow d =
     (if d = 0 then Inl ZeroDivisionError
      else if 0 < d then Inr (PyFloat (real_of_int d powr (- 1 / 2)))
      else Inr (PyComplex 0 (- (real_of_int (- d) powr (- 1 / 2)))))"

text \<open>\<open>Attention.__init__\<close>; \<open>context_dim = None\<close> defaults to \<open>query_dim\<close>.\<close>

definition new_Attention ::
  "(nat \<Rightarrow> real) \<Rightarrow> int \<Rightarrow> int option \<Rightarrow> int \<Rightarrow> int \<Rightarrow> real \<Rightarrow> nat
     \<Rightarrow> error + (attention \<times> nat)" where
  "new_Attention rnd query_dim context_dim hs dim_head dropout p =
     (let inner_dim = dim_head * hs;
          context_dim' = (case context_dim of None \<Rightarrow> query_dim | Some c \<Rightarrow> c)
      in ebind (inv_sqrt_pow dim_head) (\<lambda>sc.
         ebind (new_Linear rnd query_dim inner_dim False p) (\<lambda>(q, p1).
         ebind (new_Linear rnd context_dim' (inner_dim * 2) False p1) (\<lambda>(kv, p2).
         ebind (new_Linear rnd inner_dim query_dim True p2) (\<lambda>(out, p3).
         ebind (new_Dropout dropout) (\<lambda>dp.
           Inr (\<lparr>scale = sc, heads = hs, to_q = q, to_kv = kv, to_out = out,
                 to_out_dropout = dp\<rparr>, p3)))))))"

text \<open>\<open>FeedForward.__init__\<close> with the default \<open>mult = 4\<close>.\<close>

definition new_FeedForward ::
  "(nat \<Rightarrow> real) \<Rightarrow> int \<Rightarrow> int \<Rightarrow> real \<Rightarrow> nat \<Rightarrow> error + (feed_forward \<times> nat)" where
  "new_FeedForward rnd dm mult dropout p =
     ebind (new_Linear rnd dm (dm * mult * 2) True p) (\<lambda>(l1, p1).
     ebind (new_Dropout dropout) (\<lambda>dp.
     ebind (new_Linear rnd (dm * mult) dm True p1) (\<lambda>(l2, p2).
       Inr (\<lparr>net_in = l1, net_dropout = dp, net_out = l2\<rparr>, p2))))"

definition new_PreNorm :: "int \<Rightarrow> sublayer \<Rightarrow> int option \<Rightarrow> error + pre_norm" where
  "new_PreNorm dm f context_dim =
     ebind (new_LayerNorm dm) (\<lambda>n.
     ebind (case context_dim of None \<Rightarrow> Inr None
            | Some c \<Rightarrow> ebind (new_LayerNorm c) (\<lambda>nc. Inr (Some nc))) (\<lambda>nc.
       Inr \<lparr>fn = f, norm_layer = n, norm_context = nc\<rparr>))"

text \<open>
  The object store while the model is built: the module instances in allocation order (a
  reference is the index of an instance) and the position in the stream of random draws.
\<close>

record heap =
  objs :: "pre_norm list"
  drawn :: nat

definition alloc :: "pre_norm \<Rightarrow> nat \<Rightarrow> heap \<Rightarrow> nat \<times> heap" where
  "alloc m p h = (length (objs h), \<lparr>objs = objs h @ [m], drawn = p\<rparr>)"

record config =
  num_freq_bands :: int
  depth :: int
  max_freq :: real
  freq_base :: real
  input_channels :: int
  input_axis :: int
  num_latents :: int
  latent_dim :: int
  cross_heads :: int
  latent_heads :: int
  cross_dim_head :: int
  latent_dim_head :: int
  num_classes :: int
  attn_dropout :: real
  ff_dropout :: real
  weight_tie_layers :: bool
  fourier_encode_data :: bool
  self_per_cross_attn :: int
  self_attn_rel_pos :: bool

definition fourier_channels :: "config \<Rightarrow> int" where
  "fourier_channels cfg =
     (if fourier_encode_data cfg then input_axis cfg * (num_freq_bands cfg * 2 + 1) else 0)"

definition input_dim :: "config \<Rightarrow> int" where
  "input_dim cfg = fourier_channels cfg + input_channels cfg"

text \<open>The four factories of \<open>Perceiver.__init__\<close>; each returns a reference to a new instance.\<close>

definition get_cross_attn :: "(nat \<Rightarrow> real) \<Rightarrow> config \<Rightarrow> heap \<Rightarrow> error + (nat \<times> heap)" where
  "get_cross_attn rnd cfg h =
     ebind (new_Attention rnd (latent_dim cfg) (Some (input_dim cfg)) (cross_heads cfg)
              (cross_dim_head cfg) (attn_dropout cfg) (drawn h)) (\<lambda>(a, p).
     ebind (new_PreNorm (latent_dim cfg) (Attention a) (Some (input_dim cfg))) (\<lambda>m.
       Inr (alloc m p h)))"

definition get_cross_ff :: "(nat \<Rightarrow> real) \<Rightarrow> config \<Rightarrow> heap \<Rightarrow> error + (nat \<times> heap)" where
  "get_cross_ff rnd cfg h =
     ebind (new_FeedForward rnd (latent_dim cfg) 4 (ff_dropout cfg) (drawn h)) (\<lambda>(f, p).
     ebind (new_PreNorm (latent_dim cfg) (FeedForward f) None) (\<lambda>m.
       Inr (alloc m p h)))"

definition get_latent_attn :: "(nat \<Rightarrow> real) \<Rightarrow> config \<Rightarrow> heap \<Rightarrow> error + (nat \<times> heap)" where
  "get_latent_attn rnd cfg h =
     ebind (new_Attention rnd (latent_dim cfg) None (latent_heads cfg)
              (latent_dim_head cfg) (attn_dropout cfg) (drawn h)) (\<lambda>(a, p).
     ebind (new_PreNorm (latent_dim cfg) (Attention a) None) (\<lambda>m.
       Inr (alloc m p h)))"

definition get_latent_ff :: "(nat \<Rightarrow> real) \<Rightarrow> config \<Rightarrow> heap \<Rightarrow> error + (nat \<times> heap)" where
  "get_latent_ff rnd cfg h =
     ebind (new_FeedForward rnd (latent_dim cfg) 4 (ff_dropout cfg) (drawn h)) (\<lambda>(f, p).
     ebind (new_PreNorm (latent_dim cfg) (FeedForward f) None) (\<lambda>m.
       Inr (alloc m p h)))"

text \<open>
  \<open>cache_fn\<close>: the closure \<open>cached_fn\<close> owns one cell \<open>cache\<close>, passed in and returned here.
  With \<open>_cache\<close> false the factory runs and the cell is left alone; otherwise the cell's
  instance is returned, the factory running (and filling the cell) only when it is empty.
\<close>

definition cached_fn ::
  "(heap \<Rightarrow> error + (nat \<times> heap)) \<Rightarrow> bool \<Rightarrow> nat option \<Rightarrow> heap
     \<Rightarrow> error + (nat \<times> nat option \<times> heap)" where
  "cached_fn f use_cache cache h =
     (if \<not> use_cache then ebind (f h) (\<lambda>(r, h'). Inr (r, cache, h'))
      else case cache of
             Some r \<Rightarrow> Inr (r, cache, h)
           | None \<Rightarrow> ebind (f h) (\<lambda>(r, h'). Inr (r, Some r, h')))"

text \<open>The cells of the four cached factories.\<close>

record caches =
  c_cross_attn :: "nat option"
  c_cross_ff :: "nat option"
  c_latent_attn :: "nat option"
  c_latent_ff :: "nat option"

text \<open>The inner loop \<open>for _ in range(self_per_cross_attn)\<close>, as the state after \<open>n\<close> rounds.\<close>

fun build_self_attns ::
  "(nat \<Rightarrow> real) \<Rightarrow> config \<Rightarrow> bool \<Rightarrow> nat \<Rightarrow> caches \<times> heap
     \<Rightarrow> error + ((nat \<times> nat) list \<times> caches \<times> heap)" where
  "build_self_attns rnd cfg should_cache 0 (cs, h) = Inr ([], cs, h)"
| "build_self_attns rnd cfg should_cache (Suc n) (cs, h) =
     ebind (build_self_attns rnd cfg should_cache n (cs, h)) (\<lambda>(blocks, cs1, h1).
     ebind (cached_fn (get_latent_attn rnd cfg) should_cache (c_latent_attn cs1) h1)
       (\<lambda>(la, c2, h2).
     ebind (cached_fn (get_latent_ff rnd cfg) should_cache (c_latent_ff cs1) h2)
       (\<lambda>(lf, c3, h3).
       Inr (blocks @ [(la, lf)], cs1\<lparr>c_latent_attn := c2, c_latent_ff := c3\<rparr>, h3))))"

text \<open>One round \<open>i\<close> of the outer loop: a layer group \<open>(cross_attn, cross_ff, self_attns)\<close>.\<close>

type_synonym layer_group = "nat \<times> nat \<times> (nat \<times> nat) list"

definition build_group ::
  "(nat \<Rightarrow> real) \<Rightarrow> config \<Rightarrow> nat \<Rightarrow> caches \<times> heap \<Rightarrow> error + (layer_group \<times> caches \<times> heap)" where
  "build_group rnd cfg i st =
     (let should_cache = (0 < i \<and> weight_tie_layers cfg) in
      ebind (build_self_attns rnd cfg should_cache (nat (self_per_cross_attn cfg)) st)
        (\<lambda>(self_attns, cs1, h1).
      ebind (cached_fn (get_cross_attn rnd cfg) should_cache (c_cross_attn cs1) h1)
        (\<lambda>(ca, c2, h2).
      ebind (cached_fn (get_cross_ff rnd cfg) should_cache (c_cross_ff cs1) h2)
        (\<lambda>(cf, c3, h3).
        Inr ((ca, cf, self_attns), cs1\<lparr>c_cross_attn := c2, c_cross_ff := c3\<rparr>, h3)))))"

text \<open>The outer loop \<open>for i in range(depth)\<close>, as the state after \<open>n\<close> rounds.\<close>

fun build_layers ::
  "(nat \<Rightarrow> real) \<Rightarrow> config \<Rightarrow> nat \<Rightarrow> caches \<times> heap
     \<Rightarrow> error + (layer_group list \<times> caches \<times> heap)" where
  "build_layers rnd cfg 0 st = Inr ([], st)"
| "build_layers rnd cfg (Suc n) st =
     ebind (build_layers rnd cfg n st) (\<lambda>(groups, st1).
     ebind (build_group rnd cfg n st1) (\<lambda>(g, st2).
       Inr (groups @ [g], st2)))"

text \<open>
  The model object. \<open>modules\<close> holds the instances the layer groups refer to. The rotary
  embedding class is not part of this source file: its constructor is the parameter
  \<open>new_emb\<close>.
\<close>

record 'e perceiver =
  p_input_axis :: int
  p_max_freq :: real
  p_num_freq_bands :: int
  p_freq_base :: real
  p_fourier_encode_data :: bool
  latents :: mat
  modules :: "pre_norm list"
  layers :: "layer_group list"
  to_logits :: "layer_norm \<times> linear"
  sinu_emb :: "'e option"

definition Perceiver_init ::
  "(nat \<Rightarrow> real) \<Rightarrow> (int \<Rightarrow> error + 'e) \<Rightarrow> config \<Rightarrow> error + 'e perceiver" where
  "Perceiver_init rnd new_emb cfg =
     ebind (randn rnd (num_latents cfg) (latent_dim cfg) 0) (\<lambda>(lat, p0).
     ebind (build_layers rnd cfg (nat (depth cfg))
              (\<lparr>c_cross_attn = None, c_cross_ff = None, c_latent_attn = None,
                c_latent_ff = None\<rparr>, \<lparr>objs = [], drawn = p0\<rparr>)) (\<lambda>(groups, cs, h).
     ebind (new_LayerNorm (latent_dim cfg)) (\<lambda>n.
     ebind (new_Linear rnd (latent_dim cfg) (num_classes cfg) True (drawn h)) (\<lambda>(l, p1).
     ebind (if self_attn_rel_pos cfg
            then ebind (new_emb (latent_dim_head cfg)) (\<lambda>e. Inr (Some e))
            else Inr None) (\<lambda>emb.
       Inr \<lparr>p_input_axis = input_axis cfg, p_max_freq = max_freq cfg,
            p_num_freq_bands = num_freq_bands cfg, p_freq_base = freq_base cfg,
            p_fourier_encode_data = fourier_encode_data cfg, latents = lat,
            modules = objs h, layers = groups, to_logits = (n, l), sinu_emb = emb\<rparr>)))))"

text \<open>Reading the instances of a depth position; an index out of range is an IndexError.\<close>

definition cross_attn_at :: "'e perceiver \<Rightarrow> nat \<Rightarrow> nat option" where
  "cross_attn_at m i = (if i < length (layers m) then Some (fst (layers m ! i)) else None)"

definition cross_ff_at :: "'e perceiver \<Rightarrow> nat \<Rightarrow> nat option" where
  "cross_ff_at m i =
     (if i < length (layers m) then Some (fst (snd (layers m ! i))) else None)"

definition self_block_at :: "'e perceiver \<Rightarrow> nat \<Rightarrow> nat \<Rightarrow> (nat \<times> nat) option" where
  "self_block_at m i j =
     (if i < length (layers m) \<and> j < length (snd (snd (layers m ! i)))
      then Some (snd (snd (layers m ! i)) ! j) else None)"

definition latent_attn_at :: "'e perceiver \<Rightarrow> nat \<Rightarrow> nat \<Rightarrow> nat option" where
  "latent_attn_at m i j = map_option fst (self_block_at m i j)"

definition latent_ff_at :: "'e perceiver \<Rightarrow> nat \<Rightarrow> nat \<Rightarrow> nat option" where
  "latent_ff_at m i j = map_option snd (self_block_at m i j)"

text \<open>Reading and overwriting the parameters of an instance through a reference.\<close>

definition get_module :: "'e perceiver \<Rightarrow> nat \<Rightarrow> pre_norm option" where
  "get_module m r = (if r < length (modules m) then Some (modules m ! r) else None)"

definition set_module :: "'e perceiver \<Rightarrow> nat \<Rightarrow> pre_norm \<Rightarrow> 'e perceiver" where
  "set_module m r v = m\<lparr>modules := (modules m)[r := v]\<rparr>"

section \<open>When construction succeeds\<close>

text \<open>
  The arguments for which the runtime builds the parameters of a module: no negative size,
  a non-zero head dimension, a dropout probability in the unit interval.
\<close>

definition dropout_ok :: "real \<Rightarrow> bool" where
  "dropout_ok p \<longleftrightarrow> 0 \<le> p \<and> p \<le> 1"

definition attention_ok :: "int \<Rightarrow> int \<Rightarrow> int \<Rightarrow> int \<Rightarrow> real \<Rightarrow> bool" where
  "attention_ok query_dim context_dim hs dim_head p \<longleftrightarrow>
     dim_head \<noteq> 0 \<and> 0 \<le> query_dim \<and> 0 \<le> dim_head * hs \<and> 0 \<le> context_dim \<and> dropout_ok p"

definition cross_attn_ok :: "config \<Rightarrow> bool" where
  "cross_attn_ok cfg \<longleftrightarrow>
     attention_ok (latent_dim cfg) (input_dim cfg) (cross_heads cfg) (cross_dim_head cfg)
       (attn_dropout cfg)"

definition latent_attn_ok :: "config \<Rightarrow> bool" where
  "latent_attn_ok cfg \<longleftrightarrow>
     attention_ok (latent_dim cfg) (latent_dim cfg) (latent_heads cfg) (latent_dim_head cfg)
       (attn_dropout cfg)"

definition ff_ok :: "config \<Rightarrow> bool" where
  "ff_ok cfg \<longleftrightarrow> 0 \<le> latent_dim cfg \<and> dropout_ok (ff_dropout cfg)"

text \<open>What one round of the outer loop needs, when it has to build its instances.\<close>

definition group_ok :: "config \<Rightarrow> bool" where
  "group_ok cfg \<longleftrightarrow>
     (0 < self_per_cross_attn cfg \<longrightarrow> latent_attn_ok cfg \<and> ff_ok cfg)
     \<and> cross_attn_ok cfg \<and> ff_ok cfg"

text \<open>
  The references a finished model holds, in closed form: a round that builds its own
  instances on a store of \<open>s\<close> instances (\<open>fresh_group\<close>), and a round that reuses the
  cached ones, first built on a store of \<open>s\<close> instances (\<open>tied_group\<close>).
\<close>

definition fresh_group :: "nat \<Rightarrow> nat \<Rightarrow> layer_group" where
  "fresh_group S s = (s + 2 * S, s + 2 * S + 1, map (\<lambda>j. (s + 2 * j, s + 2 * j + 1)) [0..<S])"

definition tied_group :: "nat \<Rightarrow> nat \<Rightarrow> layer_group" where
  "tied_group S s = (if S = 0 then (s, s + 1, []) else (s + 2, s + 3, replicate S (s, s + 1)))"

definition expected_layers :: "bool \<Rightarrow> nat \<Rightarrow> nat \<Rightarrow> layer_group list" where
  "expected_layers tie S D =
     (if tie then (if D = 0 then [] else fresh_group S 0 # replicate (D - 1) (tied_group S (2 * S + 2)))
      else map (\<lambda>i. fresh_group S (i * (2 * S + 2))) [0..<D])"

definition no_caches :: caches where
  "no_caches = \<lparr>c_cross_attn = None, c_cross_ff = None, c_latent_attn = None, c_latent_ff = None\<rparr>"

definition tied_caches :: "nat \<Rightarrow> nat \<Rightarrow> caches" where
  "tied_caches S s =
     (if S = 0 then \<lparr>c_cross_attn = Some s, c_cross_ff = Some (s + 1), c_latent_attn = None, c_latent_ff = None\<rparr>
      else \<lparr>c_cross_attn = Some (s + 2), c_cross_ff = Some (s + 3), c_latent_attn = Some s, c_latent_ff = Some (s + 1)\<rparr>)"

definition expected_caches :: "bool \<Rightarrow> nat \<Rightarrow> nat \<Rightarrow> caches" where
  "expected_caches tie S n = (if tie \<and> 2 \<le> n then tied_caches S (2 * S + 2) else no_caches)"

definition expected_size :: "bool \<Rightarrow> nat \<Rightarrow> nat \<Rightarrow> nat" where
  "expected_size tie S n =
     (if tie then (if n = 0 then 0 else if n = 1 then 2 * S + 2
                   else 2 * S + 2 + (if S = 0 then 2 else 4))
      else n * (2 * S + 2))"

text \<open>The arguments for which \<open>Perceiver.__init__\<close> returns a model.\<close>

definition init_ok :: "(int \<Rightarrow> error + 'e) \<Rightarrow> config \<Rightarrow> bool" where
  "init_ok new_emb cfg \<longleftrightarrow>
     0 \<le> num_latents cfg \<and> 0 \<le> latent_dim cfg
     \<and> (0 < depth cfg \<longrightarrow> group_ok cfg)
     \<and> 0 \<le> num_classes cfg
     \<and> (self_attn_rel_pos cfg \<longrightarrow> \<not> isl (new_emb (latent_dim_head cfg)))"

text \<open>Two small configurations for concrete runs of the constructor.\<close>

definition tied_config :: config where
  "tied_config = \<lparr>num_freq_bands = 1, depth = 3, max_freq = 10, freq_base = 2,
     input_channels = 1, input_axis = 1, num_latents = 1, latent_dim = 1, cross_heads = 1,
     latent_heads = 1, cross_dim_head = 1, latent_dim_head = 1, num_classes = 1,
     attn_dropout = 0, ff_dropout = 0, weight_tie_layers = True, fourier_encode_data = False,
     self_per_cross_attn = 2, self_attn_rel_pos = False\<rparr>"

definition degenerate_config :: config where
  "degenerate_config = \<lparr>num_freq_bands = 0, depth = 0, max_freq = 10, freq_base = 2,
     input_channels = 1, input_axis = 1, num_latents = 0, latent_dim = 1, cross_heads = 1,
     latent_heads = 1, cross_dim_head = 1, latent_dim_head = 1, num_classes = 1,
     attn_dropout = 0, ff_dropout = 0, weight_tie_layers = False, fourier_encode_data = True,
     self_per_cross_attn = 1, self_attn_rel_pos = False\<rparr>"

section \<open>The tensor runtime\<close>

text \<open>
  A tensor of rank 3 is a list (batch) of matrices (rows of feature vectors). The source is
  written against the tensor runtime; its elementary functions enter as parameters:
  \<open>gelu\<close>, the exponential \<open>rexp\<close> used by softmax (in floating point it underflows to 0),
  and \<open>finfo_max\<close>, the largest finite value of the score dtype. The rotary position service
  lives in a file of the repository that is not part of this source: \<open>make_table\<close> is the
  call of the embedding object on the latent state, of which it reads the sequence length
  only, and \<open>rotate_vec\<close> rotates one query or key vector at its sequence position.
\<close>

record ('e, 't) runtime =
  gelu :: "real \<Rightarrow> real"
  rexp :: "real \<Rightarrow> real"
  finfo_max :: real
  make_table :: "'e \<Rightarrow> nat \<Rightarrow> 't"
  rotate_vec :: "'t \<Rightarrow> nat \<Rightarrow> vec \<Rightarrow> vec"

definition dot :: "vec \<Rightarrow> vec \<Rightarrow> real" where
  "dot u v = sum_list (map2 (*) u v)"

text \<open>A module applied along the last axis of a rank-3 tensor.\<close>

definition over_rows :: "(vec \<Rightarrow> vec) \<Rightarrow> mat list \<Rightarrow> mat list" where
  "over_rows f t = map (map f) t"

definition Linear_forward :: "linear \<Rightarrow> vec \<Rightarrow> vec" where
  "Linear_forward l x =
     (let y = map (\<lambda>w. dot w x) (weight l)
      in case bias l of None \<Rightarrow> y | Some b \<Rightarrow> map2 (+) y b)"

definition LayerNorm_forward :: "layer_norm \<Rightarrow> vec \<Rightarrow> vec" where
  "LayerNorm_forward n x =
     (let d = real (length x);
          mu = sum_list x / d;
          var = sum_list (map (\<lambda>v. (v - mu)\<^sup>2) x) / d;
          normed = map (\<lambda>v. (v - mu) / sqrt (var + ln_eps n)) x
      in map2 (+) (map2 (*) normed (ln_weight n)) (ln_bias n))"

text \<open>\<open>t.chunk(2, dim=-1)\<close> on one feature vector: the first chunk has the rounded-up half.\<close>

definition chunk2 :: "vec \<Rightarrow> vec \<times> vec" where
  "chunk2 v = (let c = (length v + 1) div 2 in (take c v, drop c v))"

definition GEGLU_forward :: "(real \<Rightarrow> real) \<Rightarrow> vec \<Rightarrow> vec" where
  "GEGLU_forward g v = (let (x, gates) = chunk2 v in map2 (*) x (map g gates))"

section \<open>Dropout, the random generator and the calls of a forward pass\<close>

text \<open>
  \<open>nn.Dropout(p)\<close> is a module of the runtime. It refuses a probability outside \<open>[0, 1]\<close>; in
  evaluation mode and for \<open>p = 0\<close> it returns its input; in training mode, which is the mode
  of every module after construction until \<open>eval()\<close> is called on the module tree, it draws
  a decision for every element of its input from the random generator of the runtime,
  zeroes the dropped elements and divides the kept ones by \<open>1 - p\<close>. The generator is
  state outside the model: \<open>gen_draws q i\<close> is its \<open>i\<close>-th decision for the keep probability
  \<open>q\<close> and \<open>gen_offset\<close> the number of decisions drawn so far; the elements of a tensor take
  their decisions in row-major order. The flag \<open>training\<close> of the definitions below is the
  mode of the module tree.

  Besides the generator, the state that a forward pass threads through its calls records,
  in order, each call of the rotary embedding with the table it returns and each call of
  a sublayer through its reference with the \<open>pos_emb\<close> that its \<open>forward\<close> receives.
\<close>

datatype 't event = MakeTable 't | Call nat "'t option"

record 't world =
  gen_draws :: "real \<Rightarrow> nat \<Rightarrow> bool"
  gen_offset :: nat
  trace :: "'t event list"

definition numel_mat :: "mat \<Rightarrow> nat" where
  "numel_mat t = sum_list (map length t)"

definition numel :: "mat list \<Rightarrow> nat" where
  "numel t = sum_list (map numel_mat t)"

fun drop_vec :: "(nat \<Rightarrow> bool) \<Rightarrow> real \<Rightarrow> nat \<Rightarrow> vec \<Rightarrow> vec" where
  "drop_vec keep q i [] = []"
| "drop_vec keep q i (a # v) = (if keep i then a / q else 0) # drop_vec keep q (Suc i) v"

fun drop_mat :: "(nat \<Rightarrow> bool) \<Rightarrow> real \<Rightarrow> nat \<Rightarrow> mat \<Rightarrow> mat" where
  "drop_mat keep q i [] = []"
| "drop_mat keep q i (r # rs) = drop_vec keep q i r # drop_mat keep q (i + length r) rs"

fun drop_tensor :: "(nat \<Rightarrow> bool) \<Rightarrow> real \<Rightarrow> nat \<Rightarrow> mat list \<Rightarrow> mat list" where
  "drop_tensor keep q i [] = []"
| "drop_tensor keep q i (t # ts) = drop_mat keep q i t # drop_tensor keep q (i + numel_mat t) ts"

definition Dropout_forward ::
  "real \<Rightarrow> bool \<Rightarrow> mat list \<Rightarrow> 't world \<Rightarrow> error + (mat list \<times> 't world)" where
  "Dropout_forward p training x w =
     (if p < 0 \<or> 1 < p then Inl ValueError
      else if \<not> training \<or> p = 0 \<or> numel x = 0 then Inr (x, w)
      else if p = 1 then Inr (map (map (map (\<lambda>_. 0))) x, w)
      else Inr (drop_tensor (gen_draws w (1 - p)) (1 - p) (gen_offset w) x,
                w\<lparr>gen_offset := gen_offset w + numel x\<rparr>))"

text \<open>\<open>FeedForward.forward\<close>: the first linear map, GEGLU, dropout, the second linear map.\<close>

definition FeedForward_forward ::
  "('e, 't) runtime \<Rightarrow> feed_forward \<Rightarrow> bool \<Rightarrow> mat list \<Rightarrow> 't world
     \<Rightarrow> error + (mat list \<times> 't world)" where
  "FeedForward_forward rt f training x w =
     ebind (Dropout_forward (net_dropout f) training
              (over_rows (\<lambda>r. GEGLU_forward (gelu rt) (Linear_forward (net_in f) r)) x) w)
       (\<lambda>(y, w'). Inr (over_rows (Linear_forward (net_out f)) y, w'))"

section \<open>Attention\<close>

text \<open>\<open>rearrange(t, b n (h d) -> (b h) n d, h=h)\<close>: the heads of one example, then of all.\<close>

definition heads_of :: "nat \<Rightarrow> mat \<Rightarrow> mat list" where
  "heads_of h t =
     map (\<lambda>i. map (\<lambda>row. take (length row div h) (drop (i * (length row div h)) row)) t)
         [0..<h]"

definition split_heads :: "nat \<Rightarrow> mat list \<Rightarrow> mat list" where
  "split_heads h t = concat (map (heads_of h) t)"

function chunks :: "nat \<Rightarrow> 'a list \<Rightarrow> 'a list list" where
  "chunks h xs = (if h = 0 \<or> xs = [] then [] else take h xs # chunks h (drop h xs))"
  by pat_completeness auto

termination
  by (relation "measure (\<lambda>(h, xs). length xs)") auto

declare chunks.simps [simp del]

text \<open>\<open>rearrange(out, (b h) n d -> b n (h d), h=h)\<close>.\<close>

definition merge_heads :: "nat \<Rightarrow> mat list \<Rightarrow> mat list" where
  "merge_heads h t = map (\<lambda>g. map concat (transpose g)) (chunks h t)"

text \<open>
  Modelled from the spec: \<open>apply_rotary_emb\<close> of the rotary position service, which is not
  in this source file. It rotates every query or key vector as a function of its sequence
  position and the table.
\<close>

definition apply_rotary_emb :: "('e, 't) runtime \<Rightarrow> 't \<Rightarrow> mat list \<Rightarrow> mat list" where
  "apply_rotary_emb rt tab t =
     map (\<lambda>m. map (\<lambda>(i, row). rotate_vec rt tab i row) (enumerate 0 m)) t"

text \<open>\<open>einsum(b i d, b j d -> b i j, q, k) * scale\<close>.\<close>

definition sim_scores :: "real \<Rightarrow> mat list \<Rightarrow> mat list \<Rightarrow> mat list" where
  "sim_scores sc q k =
     map (\<lambda>(qm, km). map (\<lambda>qi. map (\<lambda>kj. dot qi kj * sc) km) qm) (zip q k)"

text \<open>\<open>repeat(mask, b j -> (b h) () j, h=h)\<close>; the mask arrives with its axes flattened.\<close>

definition repeat_mask :: "nat \<Rightarrow> bool list list \<Rightarrow> bool list list" where
  "repeat_mask h msk = concat (map (replicate h) msk)"

text \<open>\<open>sim.masked_fill_(~mask, value)\<close>, the mask row broadcast over the query axis.\<close>

definition masked_fill :: "mat list \<Rightarrow> bool list list \<Rightarrow> real \<Rightarrow> mat list" where
  "masked_fill sim msk value =
     map (\<lambda>(s, mrow). map (\<lambda>row. map (\<lambda>(v, keep). if \<not> keep then value else v) (zip row mrow)) s)
         (zip sim msk)"

text \<open>\<open>softmax\<close> along the last axis, the way the runtime computes it: shifted by the maximum.\<close>

definition softmax :: "('e, 't) runtime \<Rightarrow> vec \<Rightarrow> vec" where
  "softmax rt row =
     (let mx = Max (set row);
          es = map (\<lambda>v. rexp rt (v - mx)) row;
          s = sum_list es
      in map (\<lambda>e. e / s) es)"

text \<open>\<open>einsum(b i j, b j d -> b i d, attn, v)\<close>.\<close>

definition weighted_values :: "mat list \<Rightarrow> mat list \<Rightarrow> mat list" where
  "weighted_values attn v =
     map (\<lambda>(am, vm). map (\<lambda>arow. map (\<lambda>col. dot arow col) (transpose vm)) am) (zip attn v)"

text \<open>
  \<open>Attention.forward\<close> up to the scores that softmax receives (after the mask has been
  filled in), with the values \<open>v\<close>. A non-positive number of heads is refused by
  \<open>rearrange\<close>; a complex scale (from a negative \<open>dim_head\<close>) makes the scores complex, which
  softmax refuses.
\<close>

definition attention_scores ::
  "('e, 't) runtime \<Rightarrow> attention \<Rightarrow> mat list \<Rightarrow> mat list option \<Rightarrow> bool list list option
     \<Rightarrow> 't option \<Rightarrow> error + (mat list \<times> mat list)" where
  "attention_scores rt a x context msk pos_emb =
     (if heads a \<le> 0 then Inl EinopsError
      else
        let h = nat (heads a);
            q = over_rows (Linear_forward (to_q a)) x;
            context' = (case context of None \<Rightarrow> x | Some c \<Rightarrow> c);
            kv = over_rows (Linear_forward (to_kv a)) context';
            k = over_rows (\<lambda>r. fst (chunk2 r)) kv;
            v = over_rows (\<lambda>r. snd (chunk2 r)) kv;
            q1 = split_heads h q;
            k1 = split_heads h k;
            v1 = split_heads h v;
            (q2, k2) = (case pos_emb of None \<Rightarrow> (q1, k1)
                        | Some tab \<Rightarrow> (apply_rotary_emb rt tab q1, apply_rotary_emb rt tab k1))
        in case scale a of
             PyComplex _ _ \<Rightarrow> Inl RuntimeError
           | PyFloat sc \<Rightarrow>
               let sim = sim_scores sc q2 k2
               in Inr (case msk of None \<Rightarrow> sim
                       | Some mk \<Rightarrow> masked_fill sim (repeat_mask h mk) (- finfo_max rt),
                       v1))"

text \<open>The attention weights \<open>attn = sim.softmax(dim=-1)\<close>.\<close>

definition attention_weights ::
  "('e, 't) runtime \<Rightarrow> attention \<Rightarrow> mat list \<Rightarrow> mat list option \<Rightarrow> bool list list option
     \<Rightarrow> 't option \<Rightarrow> error + (mat list \<times> mat list)" where
  "attention_weights rt a x context msk pos_emb =
     ebind (attention_scores rt a x context msk pos_emb) (\<lambda>(sim, v).
       Inr (over_rows (softmax rt) sim, v))"

text \<open>The rest of \<open>Attention.forward\<close>: the weighted values, and \<open>to_out\<close> with its dropout.\<close>

definition Attention_forward ::
  "('e, 't) runtime \<Rightarrow> attention \<Rightarrow> bool \<Rightarrow> mat list \<Rightarrow> mat list option
     \<Rightarrow> bool list list option \<Rightarrow> 't option \<Rightarrow> 't world \<Rightarrow> error + (mat list \<times> 't world)" where
  "Attention_forward rt a training x context msk pos_emb w =
     ebind (attention_weights rt a x context msk pos_emb) (\<lambda>(attn, v).
       Dropout_forward (to_out_dropout a) training
         (over_rows (Linear_forward (to_out a))
            (merge_heads (nat (heads a)) (weighted_values attn v))) w)"

section \<open>PreNorm and the keyword arguments of a sublayer call\<close>

text \<open>
  The three shapes of call in \<open>Perceiver.forward\<close>: \<open>f(x)\<close>, \<open>f(x, context=data, mask=mask)\<close>
  and \<open>f(x, pos_emb=pos_emb)\<close>.
\<close>

datatype 't kwargs = NoKw | CrossKw "mat list" "bool list list option" | SelfKw "'t option"

definition call_fn ::
  "('e, 't) runtime \<Rightarrow> sublayer \<Rightarrow> bool \<Rightarrow> mat list \<Rightarrow> 't kwargs \<Rightarrow> 't world
     \<Rightarrow> error + (mat list \<times> 't world)" where
  "call_fn rt f training x kw w =
     (case f of
        Attention a \<Rightarrow>
          (case kw of
             NoKw \<Rightarrow> Attention_forward rt a training x None None None w
           | CrossKw c mk \<Rightarrow> Attention_forward rt a training x (Some c) mk None w
           | SelfKw p \<Rightarrow> Attention_forward rt a training x None None p w)
      | FeedForward ff \<Rightarrow>
          (case kw of NoKw \<Rightarrow> FeedForward_forward rt ff training x w | _ \<Rightarrow> Inl TypeError))"

definition PreNorm_forward ::
  "('e, 't) runtime \<Rightarrow> pre_norm \<Rightarrow> bool \<Rightarrow> mat list \<Rightarrow> 't kwargs \<Rightarrow> 't world
     \<Rightarrow> error + (mat list \<times> 't world)" where
  "PreNorm_forward rt pn training x kw w =
     (let x' = over_rows (LayerNorm_forward (norm_layer pn)) x in
      case norm_context pn of
        None \<Rightarrow> call_fn rt (fn pn) training x' kw w
      | Some nc \<Rightarrow>
          (case kw of
             CrossKw c mk \<Rightarrow>
               call_fn rt (fn pn) training x' (CrossKw (over_rows (LayerNorm_forward nc) c) mk) w
           | _ \<Rightarrow> Inl KeyError))"

text \<open>
  The exponential of the runtime: 1 at 0, never negative, and 0 from \<open>- T\<close> downwards
  (underflow).
\<close>

definition underflows :: "('e, 't) runtime \<Rightarrow> real \<Rightarrow> bool" where
  "underflows rt T \<longleftrightarrow>
     rexp rt 0 = 1 \<and> (\<forall>d. 0 \<le> rexp rt d) \<and> (\<forall>d. d \<le> - T \<longrightarrow> rexp rt d = 0)"

text \<open>
  A runtime and a one-head attention module for concrete runs: single precision has the
  largest finite value \<open>(2 - 2^-23) * 2^127\<close>, and its exponential is 0 below about \<open>-104\<close>.
\<close>

definition float_runtime :: "(unit, unit) runtime" where
  "float_runtime = \<lparr>gelu = (\<lambda>v. v), rexp = (\<lambda>d. if d \<le> - 104 then 0 else exp d),
     finfo_max = (2 - 1 / 2 ^ 23) * 2 ^ 127, make_table = (\<lambda>_ _. ()),
     rotate_vec = (\<lambda>_ _ v. v)\<rparr>"

definition unit_attention :: attention where
  "unit_attention = \<lparr>scale = PyFloat 1, heads = 1,
     to_q = \<lparr>weight = [[1]], bias = None\<rparr>,
     to_kv = \<lparr>weight = [[1], [1]], bias = None\<rparr>,
     to_out = \<lparr>weight = [[1]], bias = Some [0]\<rparr>, to_out_dropout = 0\<rparr>"

section \<open>The forward pass\<close>

text \<open>
  The input array of shape \<open>(b, *axis, c)\<close>: its spatial shape \<open>axis\<close> and, for every example
  of the batch, the channel vectors of its positions in row-major order (so that flattening
  the spatial axes changes nothing).
\<close>

record input_data =
  axis :: "nat list"
  tokens :: "mat list"

text \<open>\<open>torch.linspace(start, end, steps)\<close>.\<close>

definition linspace :: "real \<Rightarrow> real \<Rightarrow> nat \<Rightarrow> real list" where
  "linspace start end steps =
     (if steps = 1 then [start]
      else map (\<lambda>i. start + real i * ((end - start) / real (steps - 1))) [0..<steps])"

text \<open>
  \<open>torch.stack(torch.meshgrid(*axis_pos), dim=-1)\<close> with the grid axes flattened: the
  coordinate vector of every position, in row-major order. The runtime refuses an empty
  list of tensors.
\<close>

definition meshgrid_stack :: "real list list \<Rightarrow> error + real list list" where
  "meshgrid_stack axis_pos =
     (if axis_pos = [] then Inl RuntimeError else Inr (product_lists axis_pos))"

text \<open>
  The Fourier features of every position: \<open>fourier_encode\<close> of the coordinates, then
  \<open>rearrange(enc_pos, ... n d -> ... (n d))\<close>.
\<close>

definition position_features :: "'e perceiver \<Rightarrow> nat list \<Rightarrow> error + mat" where
  "position_features m ax =
     ebind (meshgrid_stack (map (linspace (- 1) 1) ax)) (\<lambda>pos.
     ebind (fourier_encode (concat pos) (p_max_freq m) (p_num_freq_bands m) (p_freq_base m))
       (\<lambda>enc_pos. Inr (map concat (chunks (length ax) enc_pos))))"

definition tensor_add :: "mat list \<Rightarrow> mat list \<Rightarrow> mat list" where
  "tensor_add a b = map2 (map2 (map2 (+))) a b"

text \<open>\<open>x.mean(dim=-2)\<close> on one example.\<close>

definition mean_latents :: "mat \<Rightarrow> vec" where
  "mean_latents x = map (\<lambda>col. sum_list col / real (length x)) (transpose x)"

text \<open>
  Calling the instance behind a reference: \<open>nn.Module.__call__\<close>, then \<open>PreNorm.forward\<close>. The
  call is recorded with the \<open>pos_emb\<close> that reaches \<open>Attention.forward\<close>, which is \<open>None\<close>
  unless the keyword is given.
\<close>

definition pos_emb_of :: "'t kwargs \<Rightarrow> 't option" where
  "pos_emb_of kw = (case kw of SelfKw p \<Rightarrow> p | _ \<Rightarrow> None)"

definition call_module ::
  "('e, 't) runtime \<Rightarrow> 'e perceiver \<Rightarrow> bool \<Rightarrow> nat \<Rightarrow> mat list \<Rightarrow> 't kwargs \<Rightarrow> 't world
     \<Rightarrow> error + (mat list \<times> 't world)" where
  "call_module rt m training r x kw w =
     (case get_module m r of
        None \<Rightarrow> Inl DanglingReference
      | Some pn \<Rightarrow>
          PreNorm_forward rt pn training x kw (w\<lparr>trace := trace w @ [Call r (pos_emb_of kw)]\<rparr>))"

text \<open>The inner loop \<open>for self_attn, self_ff in self_attns\<close> (lines 382 to 384).\<close>

fun run_self_attns ::
  "('e, 't) runtime \<Rightarrow> 'e perceiver \<Rightarrow> bool \<Rightarrow> 't option \<Rightarrow> (nat \<times> nat) list \<Rightarrow> mat list
     \<Rightarrow> 't world \<Rightarrow> error + (mat list \<times> 't world)" where
  "run_self_attns rt m training pos_emb [] x w = Inr (x, w)"
| "run_self_attns rt m training pos_emb ((self_attn, self_ff) # rest) x w =
     ebind (call_module rt m training self_attn x (SelfKw pos_emb) w) (\<lambda>(y, w1).
     ebind (call_module rt m training self_ff (tensor_add y x) NoKw w1) (\<lambda>(z, w2).
       run_self_attns rt m training pos_emb rest (tensor_add z (tensor_add y x)) w2))"

text \<open>
  The outer loop \<open>for cross_attn, cross_ff, self_attns in self.layers\<close> (lines 378 to 384).
\<close>

fun run_layers ::
  "('e, 't) runtime \<Rightarrow> 'e perceiver \<Rightarrow> bool \<Rightarrow> mat list \<Rightarrow> bool list list option \<Rightarrow> 't option
     \<Rightarrow> layer_group list \<Rightarrow> mat list \<Rightarrow> 't world \<Rightarrow> error + (mat list \<times> 't world)" where
  "run_layers rt m training data msk pos_emb [] x w = Inr (x, w)"
| "run_layers rt m training data msk pos_emb ((cross_attn, cross_ff, self_attns) # rest) x w =
     ebind (call_module rt m training cross_attn x (CrossKw data msk) w) (\<lambda>(y, w1).
     ebind (call_module rt m training cross_ff (tensor_add y x) NoKw w1) (\<lambda>(z, w2).
     ebind (run_self_attns rt m training pos_emb self_attns (tensor_add z (tensor_add y x)) w2)
       (\<lambda>(x', w3). run_layers rt m training data msk pos_emb rest x' w3)))"

text \<open>
  Line 342 of the source, \<open>b, *axis, _ = *data.shape\<close>, has a starred expression alone on the
  right of the assignment. The Python compiler refuses it (a starred expression cannot be
  used there), so the statement binds neither \<open>b\<close> nor \<open>axis\<close>, whatever the data.
\<close>

definition unpack_shape :: "input_data \<Rightarrow> error + (nat \<times> nat list)" where
  "unpack_shape d = Inl SyntaxError"

text \<open>
  The statements after line 342 are embedded with \<open>b\<close> and \<open>axis\<close> as parameters. First the
  context of the cross-attention (lines 348 to 368): the data with the position features
  appended to the channels of every example (when Fourier encoding is enabled), the
  spatial axes flattened. \<open>torch.cat\<close> refuses position features whose batch size or axes
  are not those of the data, and \<open>rearrange\<close> a batch size that is not \<open>b\<close>.
\<close>

definition encode_input :: "'e perceiver \<Rightarrow> nat \<Rightarrow> nat list \<Rightarrow> input_data \<Rightarrow> error + mat list" where
  "encode_input m b ax d =
     ebind (if p_fourier_encode_data m
            then ebind (position_features m ax) (\<lambda>enc_pos.
                   if b \<noteq> length (tokens d) \<or> ax \<noteq> axis d then Inl RuntimeError
                   else Inr (map (\<lambda>ex. map2 (@) ex enc_pos) (tokens d)))
            else Inr (tokens d))
       (\<lambda>data. if b \<noteq> length data then Inl EinopsError else Inr data)"

text \<open>Line 375: the rotary embedding, when there is one, is called on the latent state.\<close>

definition rotary_table ::
  "('e, 't) runtime \<Rightarrow> 'e perceiver \<Rightarrow> 't world \<Rightarrow> 't option \<times> 't world" where
  "rotary_table rt m w =
     (case sinu_emb m of
        None \<Rightarrow> (None, w)
      | Some e \<Rightarrow>
          (let tab = make_table rt e (length (latents m))
           in (Some tab, w\<lparr>trace := trace w @ [MakeTable tab]\<rparr>)))"

text \<open>
  Lines 343 to 384 of \<open>Perceiver.forward\<close>, up to the end of the loop over the layers: the
  latent state \<open>x\<close>. The mask arrives with its spatial axes flattened.
\<close>

definition forward_latents ::
  "('e, 't) runtime \<Rightarrow> 'e perceiver \<Rightarrow> bool \<Rightarrow> nat \<Rightarrow> nat list \<Rightarrow> input_data
     \<Rightarrow> bool list list option \<Rightarrow> 't world \<Rightarrow> error + (mat list \<times> 't world)" where
  "forward_latents rt m training b ax d msk w =
     (if int (length ax) \<noteq> p_input_axis m then Inl AssertionError
      else
        ebind (encode_input m b ax d) (\<lambda>data.
          let x = replicate b (latents m);
              (pos_emb, w1) = rotary_table rt m w
          in run_layers rt m training data msk pos_emb (layers m) x w1))"

text \<open>Lines 343 to 387: then pooling over the latents and \<open>to_logits\<close>.\<close>

definition forward_body ::
  "('e, 't) runtime \<Rightarrow> 'e perceiver \<Rightarrow> bool \<Rightarrow> nat \<Rightarrow> nat list \<Rightarrow> input_data
     \<Rightarrow> bool list list option \<Rightarrow> 't world \<Rightarrow> error + (mat \<times> 't world)" where
  "forward_body rt m training b ax d msk w =
     ebind (forward_latents rt m training b ax d msk w) (\<lambda>(x, w').
       Inr (map (\<lambda>xb. Linear_forward (snd (to_logits m))
                        (LayerNorm_forward (fst (to_logits m)) (mean_latents xb))) x, w'))"

text \<open>\<open>Perceiver.forward\<close> as the source has it: line 342, then the rest.\<close>

definition Perceiver_forward ::
  "('e, 't) runtime \<Rightarrow> 'e perceiver \<Rightarrow> bool \<Rightarrow> input_data \<Rightarrow> bool list list option \<Rightarrow> 't world
     \<Rightarrow> error + (mat \<times> 't world)" where
  "Perceiver_forward rt m training d msk w =
     ebind (unpack_shape d) (\<lambda>(b, ax). forward_body rt m training b ax d msk w)"

text \<open>
  What \<open>Attention.forward\<close> computes once its arguments are accepted: \<open>q_in\<close> is the query
  input, \<open>c_in\<close> the context (the query input itself for self-attention).
\<close>

definition attention_batch ::
  "('e, 't) runtime \<Rightarrow> attention \<Rightarrow> nat \<Rightarrow> real \<Rightarrow> 't option \<Rightarrow> mat list \<Rightarrow> mat list
     \<Rightarrow> bool list list option \<Rightarrow> mat list" where
  "attention_batch rt a h sc pos_emb q_in c_in msk =
     (let rot = (\<lambda>t. case pos_emb of None \<Rightarrow> t | Some tab \<Rightarrow> apply_rotary_emb rt tab t);
          q = split_heads h (over_rows (Linear_forward (to_q a)) q_in);
          kv = over_rows (Linear_forward (to_kv a)) c_in;
          k = split_heads h (over_rows (\<lambda>r. fst (chunk2 r)) kv);
          v = split_heads h (over_rows (\<lambda>r. snd (chunk2 r)) kv);
          sim = sim_scores sc (rot q) (rot k);
          sim' = (case msk of None \<Rightarrow> sim
                  | Some mk \<Rightarrow> masked_fill sim (repeat_mask h mk) (- finfo_max rt))
      in over_rows (Linear_forward (to_out a))
           (merge_heads h (weighted_values (over_rows (softmax rt) sim') v)))"

text \<open>
  Row \<open>b\<close> of the keyword arguments of a call, as a batch of one, and the agreement of their
  batch size with that of the latent state.
\<close>

definition mask_row :: "bool list list option \<Rightarrow> nat \<Rightarrow> bool list list option" where
  "mask_row msk b = map_option (\<lambda>mk. [mk ! b]) msk"

definition mask_fits :: "bool list list option \<Rightarrow> nat \<Rightarrow> bool" where
  "mask_fits msk n = (case msk of None \<Rightarrow> True | Some mk \<Rightarrow> length mk = n)"

definition kwargs_row :: "'t kwargs \<Rightarrow> nat \<Rightarrow> 't kwargs" where
  "kwargs_row kw b =
     (case kw of NoKw \<Rightarrow> NoKw | CrossKw c mk \<Rightarrow> CrossKw [c ! b] (mask_row mk b)
      | SelfKw p \<Rightarrow> SelfKw p)"

definition kwargs_fit :: "'t kwargs \<Rightarrow> nat \<Rightarrow> bool" where
  "kwargs_fit kw n =
     (case kw of CrossKw c mk \<Rightarrow> length c = n \<and> mask_fits mk n | _ \<Rightarrow> True)"

text \<open>
  A result on the whole batch and the result on row \<open>b\<close> alone: the same error, or a batch of
  \<open>n\<close> examples whose row \<open>b\<close> is the one example of the other.
\<close>

definition rowwise ::
  "error + ('a list \<times> 'w) \<Rightarrow> error + ('a list \<times> 'w) \<Rightarrow> nat \<Rightarrow> nat \<Rightarrow> bool" where
  "rowwise full single n b =
     (case full of
        Inl e \<Rightarrow> single = Inl e
      | Inr (y, w) \<Rightarrow> length y = n \<and> (\<exists>w'. single = Inr ([y ! b], w')))"

text \<open>
  Dropout does nothing: the module tree is in evaluation mode, or every dropout probability
  of the model is 0.
\<close>

definition quiet_fn :: "bool \<Rightarrow> sublayer \<Rightarrow> bool" where
  "quiet_fn training f =
     (\<not> training \<or> (case f of Attention a \<Rightarrow> to_out_dropout a = 0
                       | FeedForward ff \<Rightarrow> net_dropout ff = 0))"

definition quiet :: "'e perceiver \<Rightarrow> bool \<Rightarrow> bool" where
  "quiet m training \<longleftrightarrow> (\<forall>pn\<in>set (modules m). quiet_fn training (fn pn))"

text \<open>A model with one layer group whose output projections are zero, and two inputs.\<close>

definition zero_model :: "unit perceiver" where
  "zero_model = \<lparr>p_input_axis = 1, p_max_freq = 10, p_num_freq_bands = 1, p_freq_base = 2,
     p_fourier_encode_data = False, latents = [[1, 2]],
     modules =
       [\<lparr>fn = Attention \<lparr>scale = PyFloat 1, heads = 1,
                           to_q = \<lparr>weight = [[1, 0]], bias = None\<rparr>,
                           to_kv = \<lparr>weight = [[1], [1]], bias = None\<rparr>,
                           to_out = \<lparr>weight = [[0], [0]], bias = Some [0, 0]\<rparr>,
                           to_out_dropout = 0\<rparr>,
          norm_layer = \<lparr>ln_weight = [1, 1], ln_bias = [0, 0], ln_eps = 1 / 100000\<rparr>,
          norm_context = Some \<lparr>ln_weight = [1], ln_bias = [0], ln_eps = 1 / 100000\<rparr>\<rparr>,
        \<lparr>fn = FeedForward \<lparr>net_in = \<lparr>weight = [[1, 0], [0, 1]], bias = Some [0, 0]\<rparr>,
                             net_dropout = 0,
                             net_out = \<lparr>weight = [[0], [0]], bias = Some [0, 0]\<rparr>\<rparr>,
          norm_layer = \<lparr>ln_weight = [1, 1], ln_bias = [0, 0], ln_eps = 1 / 100000\<rparr>,
          norm_context = None\<rparr>],
     layers = [(0, 1, [])],
     to_logits = (\<lparr>ln_weight = [1, 1], ln_bias = [0, 0], ln_eps = 1 / 100000\<rparr>,
                  \<lparr>weight = [[1, 1]], bias = Some [0]\<rparr>),
     sinu_emb = None\<rparr>"

definition two_examples :: input_data where
  "two_examples = \<lparr>axis = [2], tokens = [[[1], [2]], [[3], [4]]]\<rparr>"

definition two_other_examples :: input_data where
  "two_other_examples = \<lparr>axis = [2], tokens = [[[7], [8]], [[3], [4]]]\<rparr>"

text \<open>
  A linear map with zero weights has the same value \<open>c\<close> at every input: its bias, or zeros
  when it has none. \<open>const_tensor c x\<close> is the tensor with the batch and sequence lengths of
  \<open>x\<close> whose feature vectors are all \<open>c\<close>.
\<close>

definition const_linear :: "linear \<Rightarrow> vec \<Rightarrow> bool" where
  "const_linear l c \<longleftrightarrow>
     length (weight l) = length c \<and> (\<forall>w\<in>set (weight l). \<forall>v\<in>set w. v = 0)
     \<and> (case bias l of None \<Rightarrow> c = replicate (length c) 0 | Some bv \<Rightarrow> bv = c)"

definition const_tensor :: "vec \<Rightarrow> mat list \<Rightarrow> mat list" where
  "const_tensor c x = map (\<lambda>ex. replicate (length ex) c) x"

text \<open>
  The reference \<open>r\<close> leads to an attention sublayer (a cross-attention when \<open>cross\<close>, which
  may normalise its context) or to a feed-forward sublayer that the loop of the forward
  pass can call, and whose output projection has zero weights and the value \<open>c\<close>.
\<close>

definition attn_slot :: "'e perceiver \<Rightarrow> nat \<Rightarrow> vec \<Rightarrow> bool \<Rightarrow> bool" where
  "attn_slot m r c cross =
     (case get_module m r of
        None \<Rightarrow> False
      | Some pn \<Rightarrow>
          (case fn pn of
             Attention a \<Rightarrow>
               0 < heads a \<and> (case scale a of PyFloat _ \<Rightarrow> True | PyComplex _ _ \<Rightarrow> False)
               \<and> const_linear (to_out a) c \<and> dropout_ok (to_out_dropout a)
               \<and> (cross \<or> norm_context pn = None)
           | FeedForward _ \<Rightarrow> False))"

definition ff_slot :: "'e perceiver \<Rightarrow> nat \<Rightarrow> vec \<Rightarrow> bool" where
  "ff_slot m r c =
     (case get_module m r of
        None \<Rightarrow> False
      | Some pn \<Rightarrow>
          (case fn pn of
             Attention _ \<Rightarrow> False
           | FeedForward f \<Rightarrow>
               norm_context pn = None \<and> const_linear (net_out f) c
               \<and> dropout_ok (net_dropout f)))"

text \<open>
  A model whose sublayers all have a zeroed output projection (weights and bias) of \<open>k\<close>
  features, \<open>k\<close> being the length of the latent vectors.
\<close>

definition group_zero :: "'e perceiver \<Rightarrow> nat \<Rightarrow> layer_group \<Rightarrow> bool" where
  "group_zero m k g =
     (case g of (ca, cf, blocks) \<Rightarrow>
        attn_slot m ca (replicate k 0) True \<and> ff_slot m cf (replicate k 0)
        \<and> (\<forall>(sa, sf)\<in>set blocks.
              attn_slot m sa (replicate k 0) False \<and> ff_slot m sf (replicate k 0)))"

definition zeroed :: "'e perceiver \<Rightarrow> nat \<Rightarrow> bool" where
  "zeroed m k \<longleftrightarrow>
     (\<forall>row\<in>set (latents m). length row = k) \<and> (\<forall>g\<in>set (layers m). group_zero m k g)"

text \<open>
  A state to start from, and a model all of whose projection weights are zero while the
  output projection of its cross-attention has the bias \<open>[1, 1]\<close>.
\<close>

definition start_world :: "unit world" where
  "start_world = \<lparr>gen_draws = (\<lambda>q i. i = 0), gen_offset = 0, trace = []\<rparr>"


text \<open>
  A model in which the cross-attention has the dropout probability \<open>1/2\<close>, one input, and the
  state that a forward pass in training mode leaves when it starts from \<open>start_world\<close>.
\<close>

definition dropout_model :: "unit perceiver" where
  "dropout_model = \<lparr>p_input_axis = 1, p_max_freq = 10, p_num_freq_bands = 1, p_freq_base = 2,
     p_fourier_encode_data = False, latents = [[1, 2]],
     modules =
       [\<lparr>fn = Attention \<lparr>scale = PyFloat 1, heads = 1,
                           to_q = \<lparr>weight = [[0, 0]], bias = None\<rparr>,
                           to_kv = \<lparr>weight = [[0], [0]], bias = None\<rparr>,
                           to_out = \<lparr>weight = [[0], [0]], bias = Some [1, 1]\<rparr>,
                           to_out_dropout = 1 / 2\<rparr>,
          norm_layer = \<lparr>ln_weight = [1, 1], ln_bias = [0, 0], ln_eps = 1 / 100000\<rparr>,
          norm_context = Some \<lparr>ln_weight = [1], ln_bias = [0], ln_eps = 1 / 100000\<rparr>\<rparr>,
        \<lparr>fn = FeedForward \<lparr>net_in = \<lparr>weight = [[0, 0], [0, 0]], bias = Some [0, 0]\<rparr>,
                             net_dropout = 0,
                             net_out = \<lparr>weight = [[0], [0]], bias = Some [0, 0]\<rparr>\<rparr>,
          norm_layer = \<lparr>ln_weight = [1, 1], ln_bias = [0, 0], ln_eps = 1 / 100000\<rparr>,
          norm_context = None\<rparr>],
     layers = [(0, 1, [])],
     to_logits = (\<lparr>ln_weight = [1, 1], ln_bias = [0, 0], ln_eps = 1 / 100000\<rparr>,
                  \<lparr>weight = [[1, 0]], bias = Some [0]\<rparr>),
     sinu_emb = None\<rparr>"

definition one_example :: input_data where
  "one_example = \<lparr>axis = [1], tokens = [[[5]]]\<rparr>"

definition next_world :: "unit world" where
  "next_world = \<lparr>gen_draws = (\<lambda>q i. i = 0), gen_offset = 2,
                  trace = [Call 0 None, Call 1 None]\<rparr>"

text \<open>
  What the claim says of the calls of a forward pass: the sublayer calls of the loop over
  the layers, in order, where only the latent self-attentions receive \<open>pos_emb\<close>; and the
  tables that a trace records.
\<close>

definition expected_block_calls :: "(nat \<times> nat) list \<Rightarrow> 't option \<Rightarrow> 't event list" where
  "expected_block_calls blocks pos_emb =
     concat (map (\<lambda>(sa, sf). [Call sa pos_emb, Call sf None]) blocks)"

definition expected_calls :: "layer_group list \<Rightarrow> 't option \<Rightarrow> 't event list" where
  "expected_calls groups pos_emb =
     concat (map (\<lambda>(ca, cf, blocks).
                    [Call ca None, Call cf None] @ expected_block_calls blocks pos_emb) groups)"

definition tables_of :: "'t event list \<Rightarrow> 't list" where
  "tables_of evs = concat (map (\<lambda>ev. case ev of MakeTable tab \<Rightarrow> [tab] | Call r p \<Rightarrow> []) evs)"

text \<open>
  A model with rotary position embedding: the layer group of \<open>zero_model\<close> with one
  self-attention block, whose attention is a third instance.
\<close>

definition rotary_model :: "unit perceiver" where
  "rotary_model = zero_model\<lparr>
     modules := modules zero_model @
       [\<lparr>fn = Attention \<lparr>scale = PyFloat 1, heads = 1,
                           to_q = \<lparr>weight = [[1, 0]], bias = None\<rparr>,
                           to_kv = \<lparr>weight = [[1, 0], [0, 1]], bias = None\<rparr>,
                           to_out = \<lparr>weight = [[0], [0]], bias = Some [0, 0]\<rparr>,
                           to_out_dropout = 0\<rparr>,
          norm_layer = \<lparr>ln_weight = [1, 1], ln_bias = [0, 0], ln_eps = 1 / 100000\<rparr>,
          norm_context = None\<rparr>],
     layers := [(0, 1, [(2, 1)])],
     sinu_emb := Some ()\<rparr>"

section \<open>Properties of the Fourier features\<close>

lemma logspace_ok:
  assumes "0 \<le> steps"
  shows "logspace 0 e steps base =
     Inr (map (\<lambda>i. if steps = 1 then base powr 0 else base powr (real i * (e / real (nat steps - 1))))
              [0..<nat steps])"
proof (cases "steps = 1")
  case True
  then show ?thesis by (simp add: logspace_def)
next
  case False
  with assms show ?thesis by (simp add: logspace_def)
qed

lemma mul_scales_unsqueeze:
  "mul_scales (unsqueeze_last x) ss = map (\<lambda>v. map (\<lambda>s. v * s) ss) x"
  by (simp add: mul_scales_def unsqueeze_last_def)

lemma map2_append_unsqueeze:
  "map2 (@) (map f x) (unsqueeze_last x) = map (\<lambda>v. f v @ [v]) x"
  by (induction x) (simp_all add: unsqueeze_last_def)

lemma fourier_encode_ok:
  assumes "0 \<le> nb" "0 < mf" "0 < base" "base \<noteq> 1"
  shows "fourier_encode x mf nb base =
           Inr (map (encoded_coord mf base (nat nb)) x)"
proof -
  have lb: "ln base \<noteq> 0" using assms by simp
  have ls: "logspace 0 (ln (mf / 2) / ln base) nb base =
              Inr (map (band_scale mf base (nat nb)) [0..<nat nb])"
    using assms by (auto simp: logspace_ok band_scale_def log_def)
  have "fourier_encode x mf nb base =
          Inr (map2 (@) (map (\<lambda>v. map sin (map (\<lambda>e. e * pi) (map (\<lambda>s. v * s)
                   (map (band_scale mf base (nat nb)) [0..<nat nb])))
                 @ map cos (map (\<lambda>e. e * pi) (map (\<lambda>s. v * s)
                   (map (band_scale mf base (nat nb)) [0..<nat nb])))) x)
               (unsqueeze_last x))"
    using assms lb
    by (simp add: fourier_encode_def ebind_def py_log_def py_truediv_def ls
        mul_scales_unsqueeze Let_def comp_def)
  also have "\<dots> = Inr (map (encoded_coord mf base (nat nb)) x)"
    by (simp add: map2_append_unsqueeze encoded_coord_def comp_def)
  finally show ?thesis .
qed

lemma fourier_encode_fails:
  assumes "fourier_fails mf nb base"
  shows "\<exists>e. fourier_encode x mf nb base = Inl e"
  using assms
  by (auto simp: fourier_fails_def fourier_encode_def ebind_def py_log_def py_truediv_def
      logspace_def Let_def)


lemma encoded_coord_zero:
  "encoded_coord mf base n 0 = replicate n 0 @ replicate n 1 @ [0]"
  by (simp add: encoded_coord_def map_replicate_const)

lemma band_scale_ends:
  assumes "0 < base" "base \<noteq> 1" "0 < mf"
  shows "band_scale mf base n 0 = base powr 0"
    and "2 \<le> n \<Longrightarrow> band_scale mf base n (n - 1) = base powr (log base (mf / 2))"
  using assms by (simp_all add: band_scale_def)

section \<open>Claims about the Fourier features\<close>

text \<open>
  C4 (as amended). For every coordinate value \<open>x\<close> and parameters with \<open>num_bands \<ge> 1\<close>,
  \<open>max_freq > 0\<close>, \<open>base > 0\<close> and \<open>base \<noteq> 1\<close>, \<open>fourier_encode\<close> returns, for each coordinate,
  the concatenation of the \<open>num_bands\<close> sines, the \<open>num_bands\<close> cosines and the coordinate
  itself, with scales log-spaced from \<open>base ^ 0\<close> to \<open>base ^ log_base (max_freq / 2)\<close>; each
  row has \<open>2 * num_bands + 1\<close> entries, and for \<open>x = 0\<close> the sines are 0, the cosines 1 and
  the last entry 0.
\<close>

theorem fourier_encode_features:
  assumes "1 \<le> nb" "0 < mf" "0 < base" "base \<noteq> 1"
  shows "\<exists>rows. fourier_encode x mf nb base = Inr rows \<and> length rows = length x \<and>
           (\<forall>k<length x.
               rows ! k = encoded_coord mf base (nat nb) (x ! k)
             \<and> length (rows ! k) = 2 * nat nb + 1
             \<and> (x ! k = 0 \<longrightarrow> rows ! k = replicate (nat nb) 0 @ replicate (nat nb) 1 @ [0]))
         \<and> band_scale mf base (nat nb) 0 = base powr 0
         \<and> (2 \<le> nb \<longrightarrow>
              band_scale mf base (nat nb) (nat nb - 1) = base powr (log base (mf / 2)))"
proof -
  have ok: "fourier_encode x mf nb base = Inr (map (encoded_coord mf base (nat nb)) x)"
    using assms by (intro fourier_encode_ok) simp_all
  have len: "length (encoded_coord mf base (nat nb) v) = 2 * nat nb + 1" for v
    by (simp add: encoded_coord_def)
  have ends: "band_scale mf base (nat nb) 0 = base powr 0"
    "2 \<le> nb \<longrightarrow> band_scale mf base (nat nb) (nat nb - 1) = base powr (log base (mf / 2))"
    using band_scale_ends[OF assms(3,4,2), of "nat nb"] by auto
  show ?thesis
    using ends by (simp add: ok len encoded_coord_zero)
qed

theorem fourier_encode_features_witness:
  "fourier_encode [0] 10 4 2 = Inr [[0, 0, 0, 0, 1, 1, 1, 1, 0]]"
proof -
  from fourier_encode_features[of 4 10 2 "[0]"]
  obtain rows where r: "fourier_encode [0] 10 4 2 = Inr rows" "length rows = 1"
    "rows ! 0 = replicate (nat 4) 0 @ replicate (nat 4) 1 @ [0::real]"
    by auto
  have "rows = [rows ! 0]"
    using r(2) by (cases rows) simp_all
  with r show ?thesis
    by (simp add: numeral_eq_Suc)
qed

text \<open>The claim as stated fails where the logarithm of the base is zero.\<close>

theorem fourier_encode_features_counterexample:
  "fourier_encode [0] 10 4 1 = Inl ZeroDivisionError"
  by (simp add: fourier_encode_def ebind_def py_log_def py_truediv_def Let_def)

text \<open>
  C8 (as amended). \<open>fourier_encode\<close> is a function of its arguments alone, and it fails
  exactly when \<open>max_freq \<le> 0\<close>, \<open>base \<le> 0\<close>, \<open>base = 1\<close> or \<open>num_bands < 0\<close>; with the other
  arguments in range a negative \<open>num_bands\<close> is the runtime's invalid-argument error. In
  particular \<open>num_bands = 0\<close> does not fail.
\<close>

theorem fourier_encode_failure_modes:
  "((\<exists>e. fourier_encode x mf nb base = Inl e) \<longleftrightarrow> fourier_fails mf nb base)
   \<and> (0 < mf \<and> 0 < base \<and> base \<noteq> 1 \<and> nb < 0 \<longrightarrow>
        fourier_encode x mf nb base = Inl RuntimeError)"
proof -
  have a: "\<exists>e. fourier_encode x mf nb base = Inl e" if "fourier_fails mf nb base"
    using that by (rule fourier_encode_fails)
  have b: "\<not> (\<exists>e. fourier_encode x mf nb base = Inl e)" if "\<not> fourier_fails mf nb base"
  proof -
    from that have "0 \<le> nb" "0 < mf" "0 < base" "base \<noteq> 1"
      by (auto simp: fourier_fails_def)
    then show ?thesis by (simp add: fourier_encode_ok)
  qed
  have c: "fourier_encode x mf nb base = Inl RuntimeError"
    if "0 < mf \<and> 0 < base \<and> base \<noteq> 1 \<and> nb < 0"
    using that
    by (simp add: fourier_encode_def ebind_def py_log_def py_truediv_def logspace_def Let_def)
  from a b c show ?thesis by blast
qed

theorem fourier_encode_failure_modes_witness:
  "fourier_encode [0] 10 (- 1) 2 = Inl RuntimeError
   \<and> \<not> (\<exists>e. fourier_encode [0] 10 0 2 = Inl e)"
  using fourier_encode_failure_modes[of "[0]" 10 "- 1" 2]
    fourier_encode_failure_modes[of "[0]" 10 0 2]
  by (simp add: fourier_fails_def)

text \<open>The claim as stated fails for a valid band count: the logarithm of zero is an error.\<close>

theorem fourier_encode_failure_modes_counterexample:
  "fourier_encode [0] 0 4 2 = Inl ValueError"
  by (simp add: fourier_encode_def ebind_def py_log_def Let_def)

section \<open>Construction: the factories\<close>

lemma ebind_Inr: "ebind m f = Inr y \<longleftrightarrow> (\<exists>x. m = Inr x \<and> f x = Inr y)"
  by (cases m) (simp_all add: ebind_def)

lemma ebind_Inl: "ebind m f = Inl e \<longleftrightarrow> (m = Inl e \<or> (\<exists>x. m = Inr x \<and> f x = Inl e))"
  by (cases m) (simp_all add: ebind_def)

lemma ebind_simps [simp]: "ebind (Inl e) f = Inl e" "ebind (Inr x) f = f x"
  by (simp_all add: ebind_def)

lemma new_Linear_cases:
  "new_Linear rnd i o' b p =
     (if 0 \<le> i \<and> 0 \<le> o' then Inr (fst (projr (new_Linear rnd i o' b p)), snd (projr (new_Linear rnd i o' b p)))
      else Inl RuntimeError)"
  by (auto simp: new_Linear_def randn_def)

lemma new_Attention_cases:
  "(attention_ok q c hs dh dp \<and> (\<exists>a p'. new_Attention rnd q (Some c) hs dh dp p = Inr (a, p')))
   \<or> (\<not> attention_ok q c hs dh dp \<and> (\<exists>e. new_Attention rnd q (Some c) hs dh dp p = Inl e))"
  by (auto simp: attention_ok_def dropout_ok_def new_Attention_def new_Linear_def randn_def
      new_Dropout_def inv_sqrt_pow_def Let_def)

lemma new_Attention_None: "new_Attention rnd q None hs dh dp p = new_Attention rnd q (Some q) hs dh dp p"
  by (simp add: new_Attention_def)

lemma new_FeedForward_cases:
  "(0 \<le> d \<and> dropout_ok dp \<and> (\<exists>a p'. new_FeedForward rnd d 4 dp p = Inr (a, p')))
   \<or> (\<not> (0 \<le> d \<and> dropout_ok dp) \<and> (\<exists>e. new_FeedForward rnd d 4 dp p = Inl e))"
  by (auto simp: dropout_ok_def new_FeedForward_def new_Linear_def randn_def new_Dropout_def)

lemma get_cross_attn_cases:
  "(cross_attn_ok cfg \<and> (\<exists>m p. get_cross_attn rnd cfg h = Inr (alloc m p h)))
   \<or> (\<not> cross_attn_ok cfg \<and> (\<exists>e. get_cross_attn rnd cfg h = Inl e))"
  using new_Attention_cases[of "latent_dim cfg" "input_dim cfg" "cross_heads cfg" "cross_dim_head cfg" "attn_dropout cfg" rnd "drawn h"]
  by (auto simp: get_cross_attn_def cross_attn_ok_def new_PreNorm_def new_LayerNorm_def attention_ok_def) blast+

lemma get_latent_attn_cases:
  "(latent_attn_ok cfg \<and> (\<exists>m p. get_latent_attn rnd cfg h = Inr (alloc m p h)))
   \<or> (\<not> latent_attn_ok cfg \<and> (\<exists>e. get_latent_attn rnd cfg h = Inl e))"
  using new_Attention_cases[of "latent_dim cfg" "latent_dim cfg" "latent_heads cfg" "latent_dim_head cfg" "attn_dropout cfg" rnd "drawn h"]
  by (auto simp: get_latent_attn_def latent_attn_ok_def new_PreNorm_def new_LayerNorm_def attention_ok_def new_Attention_None) blast+

lemma get_cross_ff_cases:
  "(ff_ok cfg \<and> (\<exists>m p. get_cross_ff rnd cfg h = Inr (alloc m p h)))
   \<or> (\<not> ff_ok cfg \<and> (\<exists>e. get_cross_ff rnd cfg h = Inl e))"
  using new_FeedForward_cases[of "latent_dim cfg" "ff_dropout cfg" rnd "drawn h"]
  by (auto simp: get_cross_ff_def ff_ok_def new_PreNorm_def new_LayerNorm_def) blast+

lemma get_latent_ff_cases:
  "(ff_ok cfg \<and> (\<exists>m p. get_latent_ff rnd cfg h = Inr (alloc m p h)))
   \<or> (\<not> ff_ok cfg \<and> (\<exists>e. get_latent_ff rnd cfg h = Inl e))"
  using new_FeedForward_cases[of "latent_dim cfg" "ff_dropout cfg" rnd "drawn h"]
  by (auto simp: get_latent_ff_def ff_ok_def new_PreNorm_def new_LayerNorm_def) blast+

section \<open>Construction: the loops\<close>

lemma alloc_simps [simp]:
  "fst (alloc m p h) = length (objs h)"
  "objs (snd (alloc m p h)) = objs h @ [m]"
  by (simp_all add: alloc_def)

lemma bsa_fresh:
  assumes "latent_attn_ok cfg" "ff_ok cfg"
  shows "\<exists>h'. build_self_attns rnd cfg False n (cs, h) =
            Inr (map (\<lambda>j. (length (objs h) + 2 * j, length (objs h) + 2 * j + 1)) [0..<n], cs, h')
          \<and> length (objs h') = length (objs h) + 2 * n"
proof (induction n)
  case 0
  show ?case by simp
next
  case (Suc n)
  then obtain h1 where h1: "build_self_attns rnd cfg False n (cs, h) =
            Inr (map (\<lambda>j. (length (objs h) + 2 * j, length (objs h) + 2 * j + 1)) [0..<n], cs, h1)"
      and l1: "length (objs h1) = length (objs h) + 2 * n" by blast
  from assms get_latent_attn_cases[of cfg rnd h1]
  obtain m p where a: "get_latent_attn rnd cfg h1 = Inr (alloc m p h1)" by blast
  from assms get_latent_ff_cases[of cfg rnd "snd (alloc m p h1)"]
  obtain m' p' where b: "get_latent_ff rnd cfg (snd (alloc m p h1)) = Inr (alloc m' p' (snd (alloc m p h1)))" by blast
  show ?case
    by (rule exI[of _ "snd (alloc m' p' (snd (alloc m p h1)))"])
       (simp add: h1 l1 cached_fn_def a b split_beta)
qed

lemma bsa_fail:
  assumes "\<not> (latent_attn_ok cfg \<and> ff_ok cfg)" "0 < n"
    and "sc \<longrightarrow> c_latent_attn cs = None \<and> c_latent_ff cs = None"
  shows "\<exists>e. build_self_attns rnd cfg sc n (cs, h) = Inl e"
  using assms(2)
proof (induction n)
  case 0
  then show ?case by simp
next
  case (Suc n)
  show ?case
  proof (cases "n = 0")
    case True
    show ?thesis
    proof (cases "latent_attn_ok cfg")
      case False
      with get_latent_attn_cases[of cfg rnd h] obtain e where "get_latent_attn rnd cfg h = Inl e" by blast
      with True assms(3) show ?thesis by (auto simp: cached_fn_def)
    next
      case la: True
      with assms(1) have nf: "\<not> ff_ok cfg" by simp
      from la get_latent_attn_cases[of cfg rnd h]
      obtain m p where a: "get_latent_attn rnd cfg h = Inr (alloc m p h)" by blast
      from nf get_latent_ff_cases[of cfg rnd "snd (alloc m p h)"]
      obtain e where "get_latent_ff rnd cfg (snd (alloc m p h)) = Inl e" by blast
      with True assms(3) a show ?thesis by (auto simp: cached_fn_def split_beta)
    qed
  next
    case False
    with Suc obtain e where "build_self_attns rnd cfg sc n (cs, h) = Inl e" by auto
    then show ?thesis by simp
  qed
qed

lemma bsa_tied_later:
  assumes "c_latent_attn cs = Some la" "c_latent_ff cs = Some lf"
  shows "build_self_attns rnd cfg True n (cs, h) = Inr (replicate n (la, lf), cs, h)"
proof (induction n)
  case 0
  show ?case by simp
next
  case (Suc n)
  have "cs\<lparr>c_latent_attn := Some la, c_latent_ff := Some lf\<rparr> = cs"
    using assms by (cases cs) simp
  with Suc assms show ?case
    by (simp add: cached_fn_def replicate_append_same)
qed

lemma bsa_tied_first:
  assumes "latent_attn_ok cfg" "ff_ok cfg" "c_latent_attn cs = None" "c_latent_ff cs = None" "0 < n"
  shows "\<exists>h'. build_self_attns rnd cfg True n (cs, h) =
            Inr (replicate n (length (objs h), length (objs h) + 1),
                 cs\<lparr>c_latent_attn := Some (length (objs h)), c_latent_ff := Some (length (objs h) + 1)\<rparr>, h')
          \<and> length (objs h') = length (objs h) + 2"
  using assms(5)
proof (induction n)
  case 0
  then show ?case by simp
next
  case (Suc n)
  let ?s = "length (objs h)"
  show ?case
  proof (cases "n = 0")
    case True
    from assms get_latent_attn_cases[of cfg rnd h]
    obtain m p where a: "get_latent_attn rnd cfg h = Inr (alloc m p h)" by blast
    from assms get_latent_ff_cases[of cfg rnd "snd (alloc m p h)"]
    obtain m' p' where b: "get_latent_ff rnd cfg (snd (alloc m p h)) = Inr (alloc m' p' (snd (alloc m p h)))" by blast
    show ?thesis
      by (rule exI[of _ "snd (alloc m' p' (snd (alloc m p h)))"])
         (simp add: True cached_fn_def a b split_beta assms)
  next
    case False
    with Suc obtain h1 where h1: "build_self_attns rnd cfg True n (cs, h) =
            Inr (replicate n (?s, ?s + 1), cs\<lparr>c_latent_attn := Some ?s, c_latent_ff := Some (?s + 1)\<rparr>, h1)"
      and l1: "length (objs h1) = ?s + 2" by auto
    show ?thesis
      by (rule exI[of _ h1]) (simp add: h1 l1 cached_fn_def replicate_append_same)
  qed
qed

lemma bsa_cross_cells:
  "build_self_attns rnd cfg sc n (cs, h) = Inr (blocks, cs1, h1) \<Longrightarrow>
     c_cross_attn cs1 = c_cross_attn cs \<and> c_cross_ff cs1 = c_cross_ff cs"
proof (induction n arbitrary: blocks cs1 h1)
  case 0
  then show ?case by simp
next
  case (Suc n)
  then show ?case
    by (auto simp: ebind_Inr)
qed

lemma bg_fresh:
  assumes "group_ok cfg" "\<not> (0 < i \<and> weight_tie_layers cfg)"
  shows "\<exists>h'. build_group rnd cfg i (cs, h) =
            Inr (fresh_group (nat (self_per_cross_attn cfg)) (length (objs h)), cs, h')
          \<and> length (objs h') = length (objs h) + 2 * nat (self_per_cross_attn cfg) + 2"
proof -
  let ?S = "nat (self_per_cross_attn cfg)"
  let ?s = "length (objs h)"
  have "\<exists>h1. build_self_attns rnd cfg False ?S (cs, h) =
            Inr (map (\<lambda>j. (?s + 2 * j, ?s + 2 * j + 1)) [0..<?S], cs, h1)
          \<and> length (objs h1) = ?s + 2 * ?S"
  proof (cases "?S = 0")
    case True
    then show ?thesis by simp
  next
    case False
    with assms(1) have "latent_attn_ok cfg" "ff_ok cfg" by (auto simp: group_ok_def)
    then show ?thesis by (rule bsa_fresh)
  qed
  then obtain h1 where h1: "build_self_attns rnd cfg False ?S (cs, h) =
            Inr (map (\<lambda>j. (?s + 2 * j, ?s + 2 * j + 1)) [0..<?S], cs, h1)"
    and l1: "length (objs h1) = ?s + 2 * ?S" by blast
  from assms(1) have "cross_attn_ok cfg" "ff_ok cfg" by (auto simp: group_ok_def)
  with get_cross_attn_cases[of cfg rnd h1]
  obtain m p where a: "get_cross_attn rnd cfg h1 = Inr (alloc m p h1)" by blast
  from \<open>ff_ok cfg\<close> get_cross_ff_cases[of cfg rnd "snd (alloc m p h1)"]
  obtain m' p' where b: "get_cross_ff rnd cfg (snd (alloc m p h1)) = Inr (alloc m' p' (snd (alloc m p h1)))"
    by blast
  have sc: "(0 < i \<and> weight_tie_layers cfg) = False" using assms(2) by simp
  show ?thesis
    by (intro exI[of _ "snd (alloc m' p' (snd (alloc m p h1)))"])
       (simp add: build_group_def sc h1 l1 cached_fn_def a b split_beta fresh_group_def)
qed

lemma bg_tied_first:
  assumes "group_ok cfg" "0 < i" "weight_tie_layers cfg"
  shows "\<exists>h'. build_group rnd cfg i (no_caches, h) =
            Inr (tied_group (nat (self_per_cross_attn cfg)) (length (objs h)),
                 tied_caches (nat (self_per_cross_attn cfg)) (length (objs h)), h')
          \<and> length (objs h') = length (objs h) + (if nat (self_per_cross_attn cfg) = 0 then 2 else 4)"
proof -
  let ?S = "nat (self_per_cross_attn cfg)"
  let ?s = "length (objs h)"
  from assms(1) have ok: "cross_attn_ok cfg" "ff_ok cfg" by (auto simp: group_ok_def)
  have sc: "(0 < i \<and> weight_tie_layers cfg) = True" using assms(2,3) by simp
  show ?thesis
  proof (cases "?S = 0")
    case True
    from ok get_cross_attn_cases[of cfg rnd h]
    obtain m p where a: "get_cross_attn rnd cfg h = Inr (alloc m p h)" by blast
    from ok get_cross_ff_cases[of cfg rnd "snd (alloc m p h)"]
    obtain m' p' where b: "get_cross_ff rnd cfg (snd (alloc m p h)) = Inr (alloc m' p' (snd (alloc m p h)))"
      by blast
    show ?thesis
      using True
      by (intro exI[of _ "snd (alloc m' p' (snd (alloc m p h)))"])
         (simp add: build_group_def sc cached_fn_def a b split_beta tied_group_def tied_caches_def
            no_caches_def)
  next
    case False
    with assms(1) have "latent_attn_ok cfg" "ff_ok cfg" by (auto simp: group_ok_def)
    from bsa_tied_first[OF this, of no_caches ?S rnd h] False
    obtain h1 where h1: "build_self_attns rnd cfg True ?S (no_caches, h) =
            Inr (replicate ?S (?s, ?s + 1),
                 no_caches\<lparr>c_latent_attn := Some ?s, c_latent_ff := Some (?s + 1)\<rparr>, h1)"
      and l1: "length (objs h1) = ?s + 2" by (auto simp: no_caches_def)
    from ok get_cross_attn_cases[of cfg rnd h1]
    obtain m p where a: "get_cross_attn rnd cfg h1 = Inr (alloc m p h1)" by blast
    from ok get_cross_ff_cases[of cfg rnd "snd (alloc m p h1)"]
    obtain m' p' where b: "get_cross_ff rnd cfg (snd (alloc m p h1)) = Inr (alloc m' p' (snd (alloc m p h1)))"
      by blast
    show ?thesis
      using False
      by (intro exI[of _ "snd (alloc m' p' (snd (alloc m p h1)))"])
         (simp add: build_group_def sc h1[unfolded no_caches_def, simplified] l1 cached_fn_def
            a b split_beta tied_group_def tied_caches_def no_caches_def)
  qed
qed

lemma bg_tied_later:
  assumes "0 < i" "weight_tie_layers cfg"
  shows "build_group rnd cfg i (tied_caches (nat (self_per_cross_attn cfg)) s, h) =
            Inr (tied_group (nat (self_per_cross_attn cfg)) s,
                 tied_caches (nat (self_per_cross_attn cfg)) s, h)"
proof (cases "nat (self_per_cross_attn cfg) = 0")
  case True
  with assms show ?thesis
    by (simp add: build_group_def cached_fn_def tied_group_def tied_caches_def)
next
  case False
  have sc: "(0 < i \<and> weight_tie_layers cfg) = True" using assms by simp
  let ?S = "nat (self_per_cross_attn cfg)"
  have "build_self_attns rnd cfg True ?S (tied_caches ?S s, h) =
          Inr (replicate ?S (s, s + 1), tied_caches ?S s, h)"
    using False by (intro bsa_tied_later) (simp_all add: tied_caches_def)
  with False show ?thesis
    by (simp add: build_group_def sc cached_fn_def tied_group_def tied_caches_def)
qed

lemma bg_fail:
  assumes "\<not> group_ok cfg" "0 < i \<and> weight_tie_layers cfg \<longrightarrow> cs = no_caches"
  shows "\<exists>e. build_group rnd cfg i (cs, h) = Inl e"
proof -
  let ?S = "nat (self_per_cross_attn cfg)"
  let ?sc = "0 < i \<and> weight_tie_layers cfg"
  have cells: "?sc \<longrightarrow> c_latent_attn cs = None \<and> c_latent_ff cs = None
                 \<and> c_cross_attn cs = None \<and> c_cross_ff cs = None"
    using assms(2) by (auto simp: no_caches_def)
  show ?thesis
  proof (cases "0 < ?S \<and> \<not> (latent_attn_ok cfg \<and> ff_ok cfg)")
    case True
    with bsa_fail[of cfg ?S ?sc cs rnd h] cells
    obtain e where "build_self_attns rnd cfg ?sc ?S (cs, h) = Inl e" by auto
    then show ?thesis by (simp add: build_group_def)
  next
    case False
    with assms(1) have bad: "\<not> (cross_attn_ok cfg \<and> ff_ok cfg)"
      by (auto simp: group_ok_def)
    show ?thesis
    proof (cases "build_self_attns rnd cfg ?sc ?S (cs, h)")
      case (Inl e)
      then show ?thesis by (simp add: build_group_def)
    next
      case (Inr r)
      obtain blocks cs1 h1 where r: "r = (blocks, cs1, h1)" by (cases r) auto
      have c1: "?sc \<longrightarrow> c_cross_attn cs1 = None \<and> c_cross_ff cs1 = None"
        using cells bsa_cross_cells[OF Inr[unfolded r]] by simp
      show ?thesis
      proof (cases "cross_attn_ok cfg")
        case False
        with get_cross_attn_cases[of cfg rnd h1] obtain e where "get_cross_attn rnd cfg h1 = Inl e" by blast
        with Inr r c1 show ?thesis
          by (auto simp: build_group_def cached_fn_def)
      next
        case True
        with bad have nf: "\<not> ff_ok cfg" by simp
        from True get_cross_attn_cases[of cfg rnd h1]
        obtain m p where a: "get_cross_attn rnd cfg h1 = Inr (alloc m p h1)" by blast
        from nf get_cross_ff_cases[of cfg rnd "snd (alloc m p h1)"]
        obtain e where "get_cross_ff rnd cfg (snd (alloc m p h1)) = Inl e" by blast
        moreover from nf get_cross_ff_cases[of cfg rnd h1]
        obtain e' where "get_cross_ff rnd cfg h1 = Inl e'" by blast
        ultimately show ?thesis using Inr r c1 a
          by (auto simp: build_group_def cached_fn_def split_beta)
      qed
    qed
  qed
qed

lemma replicate_snoc: "0 < n \<Longrightarrow> replicate n x = replicate (n - 1) x @ [x]"
  by (cases n) (simp_all add: replicate_append_same)

lemma bl_ok:
  assumes "group_ok cfg"
  shows "\<exists>h. build_layers rnd cfg n (no_caches, \<lparr>objs = [], drawn = p0\<rparr>) =
            Inr (expected_layers (weight_tie_layers cfg) (nat (self_per_cross_attn cfg)) n,
                 expected_caches (weight_tie_layers cfg) (nat (self_per_cross_attn cfg)) n, h)
          \<and> length (objs h) =
              expected_size (weight_tie_layers cfg) (nat (self_per_cross_attn cfg)) n"
proof (induction n)
  case 0
  show ?case by (simp add: expected_layers_def expected_caches_def expected_size_def)
next
  case (Suc n)
  let ?S = "nat (self_per_cross_attn cfg)"
  let ?T = "weight_tie_layers cfg"
  from Suc obtain h1 where
    h1: "build_layers rnd cfg n (no_caches, \<lparr>objs = [], drawn = p0\<rparr>) =
            Inr (expected_layers ?T ?S n, expected_caches ?T ?S n, h1)"
    and l1: "length (objs h1) = expected_size ?T ?S n" by blast
  consider (fresh) "\<not> (0 < n \<and> ?T)" | (first) "?T" "n = 1" | (later) "?T" "2 \<le> n"
    by linarith
  then show ?case
  proof cases
    case fresh
    then have c: "expected_caches ?T ?S n = no_caches" by (auto simp: expected_caches_def)
    from bg_fresh[OF assms fresh, of rnd no_caches h1]
    obtain h2 where
      h2: "build_group rnd cfg n (no_caches, h1) = Inr (fresh_group ?S (length (objs h1)), no_caches, h2)"
      and l2: "length (objs h2) = length (objs h1) + 2 * ?S + 2" by blast
    from fresh have e: "expected_layers ?T ?S (Suc n) = expected_layers ?T ?S n @ [fresh_group ?S (length (objs h1))]"
      "expected_caches ?T ?S (Suc n) = no_caches"
      "expected_size ?T ?S (Suc n) = length (objs h1) + 2 * ?S + 2"
      by (auto simp: expected_layers_def expected_caches_def expected_size_def l1)
    show ?thesis
      by (rule exI[of _ h2]) (simp add: h1 c h2 l2 e)
  next
    case first
    then have c: "expected_caches ?T ?S n = no_caches" by (auto simp: expected_caches_def)
    from first have "0 < n" by simp
    from bg_tied_first[OF assms this first(1), of rnd h1]
    obtain h2 where
      h2: "build_group rnd cfg n (no_caches, h1) =
             Inr (tied_group ?S (length (objs h1)), tied_caches ?S (length (objs h1)), h2)"
      and l2: "length (objs h2) = length (objs h1) + (if ?S = 0 then 2 else 4)" by blast
    from first have e: "expected_layers ?T ?S (Suc n) = expected_layers ?T ?S n @ [tied_group ?S (length (objs h1))]"
      "expected_caches ?T ?S (Suc n) = tied_caches ?S (length (objs h1))"
      "expected_size ?T ?S (Suc n) = length (objs h1) + (if ?S = 0 then 2 else 4)"
      by (auto simp: expected_layers_def expected_caches_def expected_size_def l1)
    show ?thesis
      by (rule exI[of _ h2]) (simp add: h1 c h2 l2 e)
  next
    case later
    then have c: "expected_caches ?T ?S n = tied_caches ?S (2 * ?S + 2)"
      by (auto simp: expected_caches_def)
    from later have "0 < n" by simp
    note h2 = bg_tied_later[OF this later(1)]
    from later have e: "expected_layers ?T ?S (Suc n) = expected_layers ?T ?S n @ [tied_group ?S (2 * ?S + 2)]"
      "expected_caches ?T ?S (Suc n) = tied_caches ?S (2 * ?S + 2)"
      "expected_size ?T ?S (Suc n) = expected_size ?T ?S n"
      using replicate_snoc[of n "tied_group ?S (2 * ?S + 2)"]
      by (auto simp: expected_layers_def expected_caches_def expected_size_def)
    show ?thesis
      by (rule exI[of _ h1]) (simp add: h1 c h2 l1 e)
  qed
qed

lemma bl_fail:
  assumes "\<not> group_ok cfg" "0 < n"
  shows "\<exists>e. build_layers rnd cfg n (no_caches, h0) = Inl e"
  using assms(2)
proof (induction n)
  case 0
  then show ?case by simp
next
  case (Suc n)
  show ?case
  proof (cases "n = 0")
    case True
    from bg_fail[OF assms(1), of 0 no_caches rnd h0]
    obtain e where "build_group rnd cfg 0 (no_caches, h0) = Inl e" by auto
    with True show ?thesis by simp
  next
    case False
    with Suc obtain e where "build_layers rnd cfg n (no_caches, h0) = Inl e" by auto
    then show ?thesis by simp
  qed
qed

lemma randn_cases:
  "randn rnd r c p = (if 0 \<le> r \<and> 0 \<le> c then Inr (fst (projr (randn rnd r c p)), p + nat r * nat c) else Inl RuntimeError)"
  by (auto simp: randn_def)

lemma Perceiver_init_ok:
  assumes "init_ok new_emb cfg"
  shows "\<exists>m. Perceiver_init rnd new_emb cfg = Inr m
            \<and> layers m = expected_layers (weight_tie_layers cfg) (nat (self_per_cross_attn cfg)) (nat (depth cfg))
            \<and> length (modules m) = expected_size (weight_tie_layers cfg) (nat (self_per_cross_attn cfg)) (nat (depth cfg))
            \<and> p_num_freq_bands m = num_freq_bands cfg
            \<and> length (latents m) = nat (num_latents cfg)"
proof -
  let ?S = "nat (self_per_cross_attn cfg)"
  let ?T = "weight_tie_layers cfg"
  let ?D = "nat (depth cfg)"
  from assms have nn: "0 \<le> num_latents cfg" "0 \<le> latent_dim cfg" "0 \<le> num_classes cfg"
    by (auto simp: init_ok_def)
  obtain lat p0 where lat: "randn rnd (num_latents cfg) (latent_dim cfg) 0 = Inr (lat, p0)"
    "length lat = nat (num_latents cfg)"
    using nn by (simp add: randn_def)
  have "\<exists>h. build_layers rnd cfg ?D (no_caches, \<lparr>objs = [], drawn = p0\<rparr>) =
            Inr (expected_layers ?T ?S ?D, expected_caches ?T ?S ?D, h)
          \<and> length (objs h) = expected_size ?T ?S ?D"
  proof (cases "?D = 0")
    case True
    then show ?thesis by (simp add: expected_layers_def expected_caches_def expected_size_def)
  next
    case False
    with assms have "group_ok cfg" by (auto simp: init_ok_def)
    then show ?thesis by (rule bl_ok)
  qed
  then obtain h where h: "build_layers rnd cfg ?D (no_caches, \<lparr>objs = [], drawn = p0\<rparr>) =
            Inr (expected_layers ?T ?S ?D, expected_caches ?T ?S ?D, h)"
      and lh: "length (objs h) = expected_size ?T ?S ?D" by blast
  obtain l p1 where l: "new_Linear rnd (latent_dim cfg) (num_classes cfg) True (drawn h) = Inr (l, p1)"
    using nn by (simp add: new_Linear_def randn_def)
  have n: "new_LayerNorm (latent_dim cfg) = Inr \<lparr>ln_weight = replicate (nat (latent_dim cfg)) 1,
       ln_bias = replicate (nat (latent_dim cfg)) 0, ln_eps = 1 / 100000\<rparr>"
    using nn by (simp add: new_LayerNorm_def)
  obtain emb where emb: "(if self_attn_rel_pos cfg
            then ebind (new_emb (latent_dim_head cfg)) (\<lambda>e. Inr (Some e))
            else Inr None) = Inr emb"
  proof (cases "self_attn_rel_pos cfg")
    case True
    with assms have "\<not> isl (new_emb (latent_dim_head cfg))" by (simp add: init_ok_def)
    then obtain e where "new_emb (latent_dim_head cfg) = Inr e"
      by (cases "new_emb (latent_dim_head cfg)") auto
    with True that show ?thesis by simp
  next
    case False
    with that show ?thesis by simp
  qed
  show ?thesis
    by (simp add: Perceiver_init_def lat h[unfolded no_caches_def] l n emb lh)
qed

lemma Perceiver_init_fail:
  assumes "\<not> init_ok new_emb cfg"
  shows "\<exists>e. Perceiver_init rnd new_emb cfg = Inl e"
proof (cases "0 \<le> num_latents cfg \<and> 0 \<le> latent_dim cfg")
  case False
  then show ?thesis by (auto simp: Perceiver_init_def randn_def)
next
  case nn: True
  then obtain lat p0 where lat: "randn rnd (num_latents cfg) (latent_dim cfg) 0 = Inr (lat, p0)"
    by (simp add: randn_def)
  show ?thesis
  proof (cases "0 < depth cfg \<and> \<not> group_ok cfg")
    case True
    then have "0 < nat (depth cfg)" by simp
    from bl_fail[OF _ this, of cfg rnd "\<lparr>objs = [], drawn = p0\<rparr>"] True
    obtain e where "build_layers rnd cfg (nat (depth cfg)) (no_caches, \<lparr>objs = [], drawn = p0\<rparr>) = Inl e"
      by auto
    then show ?thesis
      by (simp add: Perceiver_init_def lat no_caches_def)
  next
    case False
    show ?thesis
    proof (cases "build_layers rnd cfg (nat (depth cfg)) (no_caches, \<lparr>objs = [], drawn = p0\<rparr>)")
      case (Inl e)
      then show ?thesis by (simp add: Perceiver_init_def lat no_caches_def)
    next
      case (Inr r)
      obtain g cs h where r: "r = (g, cs, h)" by (cases r) auto
      have n: "new_LayerNorm (latent_dim cfg) = Inr \<lparr>ln_weight = replicate (nat (latent_dim cfg)) 1,
         ln_bias = replicate (nat (latent_dim cfg)) 0, ln_eps = 1 / 100000\<rparr>"
        using nn by (simp add: new_LayerNorm_def)
      show ?thesis
      proof (cases "0 \<le> num_classes cfg")
        case False
        with nn have "new_Linear rnd (latent_dim cfg) (num_classes cfg) True (drawn h) = Inl RuntimeError"
          by (simp add: new_Linear_def randn_def)
        then show ?thesis
          using Inr r
          by (simp add: Perceiver_init_def lat no_caches_def n)
      next
        case True
        then obtain l p1 where l: "new_Linear rnd (latent_dim cfg) (num_classes cfg) True (drawn h) = Inr (l, p1)"
          using nn by (simp add: new_Linear_def randn_def)
        from assms False nn True have "self_attn_rel_pos cfg" "isl (new_emb (latent_dim_head cfg))"
          by (auto simp: init_ok_def)
        then obtain e where "self_attn_rel_pos cfg" "new_emb (latent_dim_head cfg) = Inl e"
          by (cases "new_emb (latent_dim_head cfg)") auto
        then show ?thesis
          using Inr r
          by (simp add: Perceiver_init_def lat no_caches_def n l)
      qed
    qed
  qed
qed

lemma init_layers:
  assumes "Perceiver_init rnd new_emb cfg = Inr m"
  shows "layers m = expected_layers (weight_tie_layers cfg) (nat (self_per_cross_attn cfg)) (nat (depth cfg))"
    and "length (modules m) = expected_size (weight_tie_layers cfg) (nat (self_per_cross_attn cfg)) (nat (depth cfg))"
proof -
  have "init_ok new_emb cfg"
    using Perceiver_init_fail[of new_emb cfg rnd] assms by auto
  from Perceiver_init_ok[OF this, of rnd] assms
  show "layers m = expected_layers (weight_tie_layers cfg) (nat (self_per_cross_attn cfg)) (nat (depth cfg))"
    and "length (modules m) = expected_size (weight_tie_layers cfg) (nat (self_per_cross_attn cfg)) (nat (depth cfg))"
    by auto
qed

lemma length_expected_layers [simp]: "length (expected_layers tie S D) = D"
  by (simp add: expected_layers_def)

lemma expected_layers_tied_nth:
  "i < D \<Longrightarrow> expected_layers True S D ! i = (if i = 0 then fresh_group S 0 else tied_group S (2 * S + 2))"
  by (cases i) (simp_all add: expected_layers_def)

lemma expected_layers_untied_nth:
  "i < D \<Longrightarrow> expected_layers False S D ! i = fresh_group S (i * (2 * S + 2))"
  by (simp add: expected_layers_def)

section \<open>Claims about weight tying and construction\<close>

text \<open>
  C1 (as amended). With \<open>weight_tie_layers\<close> enabled, every depth position \<open>i \<ge> 1\<close> holds,
  for each role (cross-attention, cross-feedforward, latent-attention, latent-feedforward),
  the same instance as depth position 1, and all self-attention blocks of those positions
  share one latent-attention and one latent-feedforward instance. The instances of depth
  position 0 are objects of their own, shared with no later position.
\<close>

theorem weight_tying_shares_from_second:
  assumes "Perceiver_init rnd new_emb cfg = Inr m" "weight_tie_layers cfg"
    and "1 \<le> i" "i < nat (depth cfg)"
  shows "cross_attn_at m i = cross_attn_at m 1 \<and> cross_ff_at m i = cross_ff_at m 1
       \<and> cross_attn_at m i \<noteq> None \<and> cross_ff_at m i \<noteq> None
       \<and> cross_attn_at m i \<noteq> cross_attn_at m 0 \<and> cross_ff_at m i \<noteq> cross_ff_at m 0
       \<and> (\<forall>j<nat (self_per_cross_attn cfg). \<forall>k<nat (self_per_cross_attn cfg).
             latent_attn_at m i j = latent_attn_at m 1 k
           \<and> latent_ff_at m i j = latent_ff_at m 1 k
           \<and> latent_attn_at m i j \<noteq> None \<and> latent_ff_at m i j \<noteq> None
           \<and> latent_attn_at m i j \<noteq> latent_attn_at m 0 k
           \<and> latent_ff_at m i j \<noteq> latent_ff_at m 0 k)"
proof -
  let ?S = "nat (self_per_cross_attn cfg)"
  let ?D = "nat (depth cfg)"
  have L: "layers m = expected_layers True ?S ?D"
    using init_layers(1)[OF assms(1)] assms(2) by simp
  have D: "i < ?D" "1 < ?D" "0 < ?D" using assms(3,4) by auto
  have gi: "layers m ! i = tied_group ?S (2 * ?S + 2)"
    using assms(3) D by (simp add: L expected_layers_tied_nth)
  have g1: "layers m ! Suc 0 = tied_group ?S (2 * ?S + 2)"
    using D by (simp add: L expected_layers_tied_nth)
  have g0: "layers m ! 0 = fresh_group ?S 0"
    using D by (simp add: L expected_layers_tied_nth)
  have len: "length (layers m) = ?D" by (simp add: L)
  show ?thesis
    using D
    by (auto simp: cross_attn_at_def cross_ff_at_def latent_attn_at_def latent_ff_at_def
        self_block_at_def len gi g1 g0 tied_group_def fresh_group_def)
qed

theorem weight_tying_shares_from_second_witness:
  "map_sum id (\<lambda>m. (cross_attn_at m 2 = cross_attn_at m 1, latent_attn_at m 2 0 = latent_attn_at m 1 1))
     (Perceiver_init (\<lambda>_. 0) (\<lambda>_. Inr ()) tied_config) = Inr (True, True)"
proof -
  obtain m where m: "Perceiver_init (\<lambda>_. 0) (\<lambda>_. Inr ()) tied_config = Inr m"
    using Perceiver_init_ok[of "\<lambda>_. Inr ()" tied_config "\<lambda>_. 0"]
    by (auto simp: init_ok_def tied_config_def group_ok_def latent_attn_ok_def cross_attn_ok_def
        ff_ok_def attention_ok_def dropout_ok_def input_dim_def fourier_channels_def)
  from weight_tying_shares_from_second[OF m, of 2]
  show ?thesis
    by (simp add: m) (simp add: tied_config_def)
qed

text \<open>
  The claim as stated fails: with tying, depth 3 and two self-attention blocks per group,
  every role has a different instance at position 1 than at position 0.
\<close>

theorem weight_tying_not_with_first_counterexample:
  "map_sum id (\<lambda>m. (cross_attn_at m 0, cross_attn_at m 1, cross_ff_at m 0, cross_ff_at m 1,
                     latent_attn_at m 0 0, latent_attn_at m 1 0, latent_ff_at m 0 0, latent_ff_at m 1 0))
     (Perceiver_init (\<lambda>_. 0) (\<lambda>_. Inr ()) tied_config)
   = Inr (Some 4, Some 8, Some 5, Some 9, Some 0, Some 6, Some 1, Some 7)"
  by code_simp

lemma fresh_block_nth:
  "j < S \<Longrightarrow> snd (snd (fresh_group S s)) ! j = (s + 2 * j, s + 2 * j + 1)"
  by (simp add: fresh_group_def)

lemma tied_block_nth:
  "j < S \<Longrightarrow> snd (snd (tied_group S s)) ! j = (s, s + 1)"
  by (simp add: tied_group_def)

lemma length_group_blocks [simp]:
  "length (snd (snd (fresh_group S s))) = S" "length (snd (snd (tied_group S s))) = S"
  by (simp_all add: fresh_group_def tied_group_def)

lemma get_set_module:
  "r2 < length (modules m) \<Longrightarrow>
     get_module (set_module m r1 v) r2 = (if r1 = r2 then Some v else get_module m r2)"
  by (simp add: get_module_def set_module_def)

text \<open>
  C7 (as amended). For \<open>depth > 2\<close> and at least one self-attention block per group, the
  latent-attention instances at depth indices 1 and 2 both exist; with
  \<open>weight_tie_layers = True\<close> they are one instance, so that overwriting the parameters
  through one reference is read back through the other; with \<open>weight_tie_layers = False\<close>
  they are different instances, and overwriting one leaves the other as it was.
\<close>

theorem latent_attention_sharing:
  assumes "Perceiver_init rnd new_emb cfg = Inr m" "2 < depth cfg"
    and "j < nat (self_per_cross_attn cfg)" "k < nat (self_per_cross_attn cfg)"
  shows "\<exists>r1 r2. latent_attn_at m 1 j = Some r1 \<and> latent_attn_at m 2 k = Some r2
           \<and> r1 < length (modules m) \<and> r2 < length (modules m)
           \<and> (weight_tie_layers cfg \<longrightarrow>
                r1 = r2 \<and> (\<forall>v. get_module (set_module m r1 v) r2 = Some v))
           \<and> (\<not> weight_tie_layers cfg \<longrightarrow>
                r1 \<noteq> r2 \<and> (\<forall>v. get_module (set_module m r1 v) r2 = get_module m r2))"
proof -
  let ?S = "nat (self_per_cross_attn cfg)"
  let ?D = "nat (depth cfg)"
  let ?T = "weight_tie_layers cfg"
  note L = init_layers[OF assms(1)]
  have D: "1 < ?D" "2 < ?D" "3 \<le> ?D" using assms(2) by auto
  have len: "length (layers m) = ?D" by (simp add: L)
  show ?thesis
  proof (cases ?T)
    case True
    have g: "layers m ! Suc 0 = tied_group ?S (2 * ?S + 2)" "layers m ! 2 = tied_group ?S (2 * ?S + 2)"
      using D by (simp_all add: L True expected_layers_tied_nth)
    have sz: "length (modules m) = 2 * ?S + 6"
      using D assms(3) by (simp add: L True expected_size_def)
    have a: "latent_attn_at m 1 j = Some (2 * ?S + 2)" "latent_attn_at m 2 k = Some (2 * ?S + 2)"
      using D assms(3,4)
      by (simp_all add: latent_attn_at_def self_block_at_def len g tied_block_nth)
    show ?thesis
      using True a sz by (simp add: get_set_module)
  next
    case False
    have g: "layers m ! Suc 0 = fresh_group ?S (2 * ?S + 2)"
      "layers m ! 2 = fresh_group ?S (2 * (2 * ?S + 2))"
      using D False by (simp_all add: L expected_layers_untied_nth)
    have "3 * (2 * ?S + 2) \<le> ?D * (2 * ?S + 2)"
      using D(3) by (rule mult_le_mono1)
    then have sz: "6 * ?S + 6 \<le> length (modules m)"
      using False by (simp add: L expected_size_def)
    have a: "latent_attn_at m 1 j = Some (2 * ?S + 2 + 2 * j)"
      "latent_attn_at m 2 k = Some (4 * ?S + 4 + 2 * k)"
      using D assms(3,4)
      by (simp_all add: latent_attn_at_def self_block_at_def len g fresh_block_nth)
    have ne: "2 * ?S + 2 + 2 * j \<noteq> 4 * ?S + 4 + 2 * k" using assms(3) by linarith
    have lt: "2 * ?S + 2 + 2 * j < length (modules m)" "4 * ?S + 4 + 2 * k < length (modules m)"
      using sz assms(3,4) by linarith+
    show ?thesis
      using False a ne lt by (simp add: get_set_module)
  qed
qed

lemma tied_config_init:
  "\<exists>m. Perceiver_init (\<lambda>_. 0) (\<lambda>_. Inr ()) (tied_config\<lparr>depth := d\<rparr>) = Inr m"
  using Perceiver_init_ok[of "\<lambda>_. Inr ()" "tied_config\<lparr>depth := d\<rparr>" "\<lambda>_. 0"]
  by (auto simp: init_ok_def tied_config_def group_ok_def latent_attn_ok_def cross_attn_ok_def
        ff_ok_def attention_ok_def dropout_ok_def input_dim_def fourier_channels_def)

theorem latent_attention_sharing_witness:
  "map_sum id (\<lambda>m. latent_attn_at m 1 0 = latent_attn_at m 2 1 \<and> latent_attn_at m 1 0 \<noteq> None)
     (Perceiver_init (\<lambda>_. 0) (\<lambda>_. Inr ()) (tied_config\<lparr>depth := 3\<rparr>)) = Inr True"
proof -
  obtain m where m: "Perceiver_init (\<lambda>_. 0) (\<lambda>_. Inr ()) (tied_config\<lparr>depth := 3\<rparr>) = Inr m"
    using tied_config_init by blast
  from latent_attention_sharing[OF m, of 0 1]
  show ?thesis
    by (simp add: m) (auto simp: tied_config_def)
qed

text \<open>With \<open>depth = 2\<close> (which is \<open>> 1\<close>) there is no depth index 2 to read.\<close>

theorem latent_attention_sharing_counterexample:
  "map_sum id (\<lambda>m. (latent_attn_at m 1 0, latent_attn_at m 2 0))
     (Perceiver_init (\<lambda>_. 0) (\<lambda>_. Inr ()) (tied_config\<lparr>depth := 2\<rparr>)) = Inr (Some 6, None)"
  by code_simp

text \<open>
  C2 (as amended). \<open>Perceiver.__init__\<close> checks nothing itself: it fails exactly when the
  runtime refuses to build a parameter tensor or module (\<open>init_ok\<close> is false), and the layer
  modules are only built when \<open>depth > 0\<close>. With \<open>depth \<le> 0\<close> it returns a model without
  layer groups whatever \<open>num_freq_bands\<close> is (the value is stored as given), and
  \<open>num_latents = 0\<close> is accepted.
\<close>

theorem construction_failure_modes:
  "((\<exists>e. Perceiver_init rnd new_emb cfg = Inl e) \<longleftrightarrow> \<not> init_ok new_emb cfg)
   \<and> (depth cfg \<le> 0 \<and> 0 \<le> num_latents cfg \<and> 0 \<le> latent_dim cfg \<and> 0 \<le> num_classes cfg
        \<and> (self_attn_rel_pos cfg \<longrightarrow> \<not> isl (new_emb (latent_dim_head cfg)))
      \<longrightarrow> (\<exists>m. Perceiver_init rnd new_emb cfg = Inr m \<and> layers m = []
                \<and> p_num_freq_bands m = num_freq_bands cfg))"
proof -
  have a: "\<exists>e. Perceiver_init rnd new_emb cfg = Inl e" if "\<not> init_ok new_emb cfg"
    using that by (rule Perceiver_init_fail)
  have b: "\<exists>m. Perceiver_init rnd new_emb cfg = Inr m
            \<and> layers m = expected_layers (weight_tie_layers cfg) (nat (self_per_cross_attn cfg)) (nat (depth cfg))
            \<and> p_num_freq_bands m = num_freq_bands cfg" if "init_ok new_emb cfg"
    using Perceiver_init_ok[OF that, of rnd] by blast
  have c: "init_ok new_emb cfg \<and> expected_layers (weight_tie_layers cfg) (nat (self_per_cross_attn cfg)) (nat (depth cfg)) = []"
    if "depth cfg \<le> 0 \<and> 0 \<le> num_latents cfg \<and> 0 \<le> latent_dim cfg \<and> 0 \<le> num_classes cfg
        \<and> (self_attn_rel_pos cfg \<longrightarrow> \<not> isl (new_emb (latent_dim_head cfg)))"
    using that by (simp add: init_ok_def expected_layers_def)
  show ?thesis
  proof (intro conjI iffI impI)
    assume "\<exists>e. Perceiver_init rnd new_emb cfg = Inl e"
    with b show "\<not> init_ok new_emb cfg" by auto
  next
    assume "\<not> init_ok new_emb cfg"
    then show "\<exists>e. Perceiver_init rnd new_emb cfg = Inl e" by (rule a)
  next
    assume h: "depth cfg \<le> 0 \<and> 0 \<le> num_latents cfg \<and> 0 \<le> latent_dim cfg \<and> 0 \<le> num_classes cfg
        \<and> (self_attn_rel_pos cfg \<longrightarrow> \<not> isl (new_emb (latent_dim_head cfg)))"
    from c[OF h] b show "\<exists>m. Perceiver_init rnd new_emb cfg = Inr m \<and> layers m = []
                \<and> p_num_freq_bands m = num_freq_bands cfg" by auto
  qed
qed

theorem construction_failure_modes_witness:
  "\<not> (\<exists>e. Perceiver_init (\<lambda>_. 0) (\<lambda>_. Inr ()) degenerate_config = Inl e)
   \<and> (\<exists>e. Perceiver_init (\<lambda>_. 0) (\<lambda>_. Inr ()) (tied_config\<lparr>num_latents := - 1\<rparr>) = Inl e)"
  using construction_failure_modes[of "\<lambda>_. 0" "\<lambda>_. Inr ()" degenerate_config]
    construction_failure_modes[of "\<lambda>_. 0" "\<lambda>_. Inr ()" "tied_config\<lparr>num_latents := - 1\<rparr>"]
  by (auto simp: degenerate_config_def tied_config_def init_ok_def)

text \<open>
  The claim as stated fails: \<open>num_freq_bands = 0\<close>, \<open>depth = 0\<close> and \<open>num_latents = 0\<close>
  together are accepted by the constructor.
\<close>

theorem construction_accepts_nonpositive_counterexample:
  "map_sum id (\<lambda>m. (layers m, latents m, p_num_freq_bands m))
     (Perceiver_init (\<lambda>_. 0) (\<lambda>_. Inr ()) degenerate_config) = Inr ([], [], 0)"
  by code_simp

lemma repeat_mask_nth:
  assumes "e < h * length mk"
  shows "repeat_mask h mk ! e = mk ! (e div h)"
  using assms
proof (induction mk arbitrary: e)
  case Nil
  then show ?case by simp
next
  case (Cons m mk)
  have h: "0 < h" using Cons.prems by (cases h) auto
  show ?case
  proof (cases "e < h")
    case True
    then show ?thesis by (simp add: repeat_mask_def nth_append)
  next
    case False
    then have "e - h < h * length mk" using Cons.prems by simp
    from Cons.IH[OF this] have "repeat_mask h mk ! (e - h) = mk ! ((e - h) div h)" .
    moreover have "e div h = Suc ((e - h) div h)"
      using False h by (simp add: le_div_geq)
    ultimately show ?thesis using False
      by (simp add: repeat_mask_def nth_append)
  qed
qed

lemma length_repeat_mask [simp]: "length (repeat_mask h mk) = h * length mk"
  by (induction mk) (simp_all add: repeat_mask_def)

lemma length_masked_fill [simp]:
  "length (masked_fill sim msk val) = min (length sim) (length msk)"
  by (simp add: masked_fill_def)

lemma masked_fill_nth:
  assumes "e < length (masked_fill sim msk val)" "i < length (masked_fill sim msk val ! e)"
    "j < length (masked_fill sim msk val ! e ! i)"
  shows "masked_fill sim msk val ! e ! i ! j = (if \<not> msk ! e ! j then val else sim ! e ! i ! j)"
  using assms by (simp add: masked_fill_def)

lemma member_le_sum_list_real:
  fixes xs :: "real list"
  assumes "x \<in> set xs" "\<forall>y\<in>set xs. 0 \<le> y"
  shows "x \<le> sum_list xs"
  using assms
proof (induction xs)
  case Nil
  then show ?case by simp
next
  case (Cons a xs)
  have nn: "0 \<le> sum_list xs" using Cons.prems(2) by (intro sum_list_nonneg) simp
  show ?case
  proof (cases "x = a")
    case True
    with nn show ?thesis by simp
  next
    case False
    with Cons have "x \<le> sum_list xs" by simp
    moreover have "0 \<le> a" using Cons.prems(2) by simp
    ultimately show ?thesis by simp
  qed
qed

lemma sum_list_divide:
  fixes xs :: "real list"
  shows "sum_list (map (\<lambda>e. e / s) xs) = sum_list xs / s"
  by (induction xs) (simp_all add: add_divide_distrib)

lemma softmax_denominator:
  assumes "underflows rt T" "row \<noteq> []"
  shows "1 \<le> sum_list (map (\<lambda>v. rexp rt (v - Max (set row))) row)"
proof -
  let ?mx = "Max (set row)"
  let ?es = "map (\<lambda>v. rexp rt (v - ?mx)) row"
  have "?mx \<in> set row" using assms(2) by (intro Max_in) auto
  then have "rexp rt (?mx - ?mx) \<in> set ?es" by force
  then have one: "1 \<in> set ?es" using assms(1) by (simp add: underflows_def)
  have nonneg: "\<forall>e \<in> set ?es. 0 \<le> e" using assms(1) by (auto simp: underflows_def)
  show ?thesis
    using one nonneg by (rule member_le_sum_list_real)
qed

lemma softmax_sum:
  assumes "underflows rt T" "row \<noteq> []"
  shows "sum_list (softmax rt row) = 1"
proof -
  let ?es = "map (\<lambda>v. rexp rt (v - Max (set row))) row"
  have "sum_list (softmax rt row) = sum_list ?es / sum_list ?es"
    unfolding softmax_def Let_def by (rule sum_list_divide)
  with softmax_denominator[OF assms] show ?thesis by simp
qed

lemma softmax_masked_zero:
  assumes "underflows rt T" "u < length row" "T - finfo_max rt \<le> row ! u"
    and "j < length row" "row ! j = - finfo_max rt"
  shows "softmax rt row ! j = 0"
proof -
  have "row ! u \<le> Max (set row)" using assms(2) by (intro Max_ge) auto
  with assms(3) have "row ! j - Max (set row) \<le> - T" using assms(5) by simp
  with assms(1) have "rexp rt (row ! j - Max (set row)) = 0" by (simp add: underflows_def)
  with assms(4) show ?thesis by (simp add: softmax_def Let_def)
qed

lemma length_softmax [simp]: "length (softmax rt row) = length row"
  by (simp add: softmax_def Let_def)

lemma underflows_float_runtime: "underflows float_runtime 104"
  by (simp add: underflows_def float_runtime_def)

lemma attention_scores_masked:
  assumes "attention_scores rt a x context (Some mk) pos_emb = Inr (sim, v)"
  shows "0 < heads a"
    and "\<exists>sim0. sim = masked_fill sim0 (repeat_mask (nat (heads a)) mk) (- finfo_max rt)"
  using assms
  by (auto simp: attention_scores_def Let_def split: if_splits pynum.splits prod.splits)

text \<open>
  C3 (as amended). In Attention with a mask present, the score of every masked position is
  set to minus the largest finite value before softmax is applied, and the weights are
  the softmax of these scores. For every head and every query position with a non-empty
  context, the weights along the context axis sum to 1. Where the mask row has at least
  one unmasked position whose score is large enough for the exponential of the difference
  to underflow (at least \<open>T - finfo_max\<close>), the weight of every masked position is exactly 0.
\<close>

theorem masked_attention_weights:
  assumes "attention_scores rt a x context (Some mk) pos_emb = Inr (sim, v)"
    and "e < length sim" "i < length (sim ! e)"
  shows "attention_weights rt a x context (Some mk) pos_emb = Inr (over_rows (softmax rt) sim, v)
       \<and> e div nat (heads a) < length mk
       \<and> (\<forall>j<length (sim ! e ! i).
             \<not> mk ! (e div nat (heads a)) ! j \<longrightarrow> sim ! e ! i ! j = - finfo_max rt)
       \<and> (underflows rt T \<and> sim ! e ! i \<noteq> [] \<longrightarrow>
             sum_list (over_rows (softmax rt) sim ! e ! i) = 1)
       \<and> (underflows rt T
            \<and> (\<exists>u<length (sim ! e ! i).
                  mk ! (e div nat (heads a)) ! u \<and> T - finfo_max rt \<le> sim ! e ! i ! u) \<longrightarrow>
             (\<forall>j<length (sim ! e ! i).
                \<not> mk ! (e div nat (heads a)) ! j \<longrightarrow>
                  over_rows (softmax rt) sim ! e ! i ! j = 0))"
proof -
  let ?h = "nat (heads a)"
  from attention_scores_masked[OF assms(1)] obtain sim0 where
    h: "0 < ?h" and sim: "sim = masked_fill sim0 (repeat_mask ?h mk) (- finfo_max rt)"
    by auto
  have e: "e < ?h * length mk" using assms(2) by (simp add: sim)
  then have ediv: "e div ?h < length mk"
    using h by (simp add: less_mult_imp_div_less mult.commute)
  have fill: "sim ! e ! i ! j = - finfo_max rt"
    if "j < length (sim ! e ! i)" "\<not> mk ! (e div ?h) ! j" for j
    using masked_fill_nth[of e sim0 "repeat_mask ?h mk" "- finfo_max rt" i j] that assms(2,3)
      repeat_mask_nth[OF e]
    by (simp add: sim)
  have w: "over_rows (softmax rt) sim ! e ! i = softmax rt (sim ! e ! i)"
    using assms(2,3) by (simp add: over_rows_def)
  have zero: "over_rows (softmax rt) sim ! e ! i ! j = 0"
    if "underflows rt T" "u < length (sim ! e ! i)" "T - finfo_max rt \<le> sim ! e ! i ! u"
      "j < length (sim ! e ! i)" "\<not> mk ! (e div ?h) ! j" for u j
    using softmax_masked_zero[OF that(1,2,3,4) fill[OF that(4,5)]] by (simp add: w)
  have one: "sum_list (over_rows (softmax rt) sim ! e ! i) = 1"
    if "underflows rt T" "sim ! e ! i \<noteq> []"
    using softmax_sum[OF that] by (simp add: w)
  have aw: "attention_weights rt a x context (Some mk) pos_emb = Inr (over_rows (softmax rt) sim, v)"
    by (simp add: attention_weights_def assms(1))
  show ?thesis
    using aw ediv fill one zero by blast
qed

lemma unit_attention_scores:
  "attention_scores float_runtime unit_attention [[[1]]] (Some [[[1], [2]]]) (Some [[True, False]]) None
     = Inr ([[[1, - finfo_max float_runtime]]], [[[1], [2]]])"
  by (simp add: attention_scores_def unit_attention_def over_rows_def Linear_forward_def dot_def
      chunk2_def split_heads_def heads_of_def sim_scores_def repeat_mask_def masked_fill_def Let_def)

theorem masked_attention_weights_witness:
  "map_sum id (\<lambda>(attn, v). (attn ! 0 ! 0 ! 1, sum_list (attn ! 0 ! 0)))
     (attention_weights float_runtime unit_attention [[[1]]] (Some [[[1], [2]]])
        (Some [[True, False]]) None) = Inr (0, 1)"
proof -
  have big: "104 - finfo_max float_runtime \<le> 1"
    by (simp add: float_runtime_def)
  from masked_attention_weights[OF unit_attention_scores, of 0 0 104] underflows_float_runtime big
  show ?thesis
    by (auto simp: unit_attention_def)
qed

text \<open>
  The claim as stated fails on a mask row without an unmasked position: the weights of the
  masked positions are then uniform, not 0.
\<close>

theorem masked_attention_weights_counterexample:
  "attention_weights float_runtime unit_attention [[[1]]] (Some [[[1], [2]]])
     (Some [[False, False]]) None = Inr ([[[1 / 2, 1 / 2]]], [[[1], [2]]])"
  by (simp add: attention_weights_def attention_scores_def unit_attention_def over_rows_def
      Linear_forward_def dot_def chunk2_def split_heads_def heads_of_def sim_scores_def
      repeat_mask_def masked_fill_def softmax_def float_runtime_def Let_def)

section \<open>Attention works on every example by itself\<close>

lemma over_rows_simps [simp]:
  "over_rows f [] = []"
  "over_rows f (t # ts) = map f t # over_rows f ts"
  "over_rows f (A @ B) = over_rows f A @ over_rows f B"
  "length (over_rows f A) = length A"
  by (simp_all add: over_rows_def)

lemma split_heads_simps [simp]:
  "split_heads h [] = []"
  "split_heads h (t # ts) = heads_of h t @ split_heads h ts"
  by (simp_all add: split_heads_def)

lemma length_heads_of [simp]: "length (heads_of h t) = h"
  by (simp add: heads_of_def)

lemma apply_rotary_emb_simps [simp]:
  "apply_rotary_emb rt tab [] = []"
  "apply_rotary_emb rt tab (A @ B) = apply_rotary_emb rt tab A @ apply_rotary_emb rt tab B"
  "length (apply_rotary_emb rt tab A) = length A"
  by (simp_all add: apply_rotary_emb_def)

lemma sim_scores_simps [simp]:
  "sim_scores sc [] k = []"
  "length (sim_scores sc q k) = min (length q) (length k)"
  "length A = length A' \<Longrightarrow>
     sim_scores sc (A @ B) (A' @ B') = sim_scores sc A A' @ sim_scores sc B B'"
  by (simp_all add: sim_scores_def)

lemma repeat_mask_simps [simp]:
  "repeat_mask h [] = []"
  "repeat_mask h (m # ms) = replicate h m @ repeat_mask h ms"
  by (simp_all add: repeat_mask_def)

lemma masked_fill_simps [simp]:
  "masked_fill [] M v = []"
  "length A = length M \<Longrightarrow>
     masked_fill (A @ B) (M @ N) v = masked_fill A M v @ masked_fill B N v"
  by (simp_all add: masked_fill_def)

lemma weighted_values_simps [simp]:
  "weighted_values [] V = []"
  "length (weighted_values A V) = min (length A) (length V)"
  "length A = length V \<Longrightarrow>
     weighted_values (A @ B) (V @ W) = weighted_values A V @ weighted_values B W"
  by (simp_all add: weighted_values_def)

lemma chunks_Nil [simp]: "chunks h [] = []"
  by (simp add: chunks.simps)

lemma chunks_append:
  "0 < h \<Longrightarrow> length A = h \<Longrightarrow> chunks h (A @ B) = A # chunks h B"
  by (subst chunks.simps) auto

lemma merge_heads_simps [simp]:
  "merge_heads h [] = []"
  "0 < h \<Longrightarrow> length A = h \<Longrightarrow> merge_heads h (A @ B) = map concat (transpose A) # merge_heads h B"
  by (simp_all add: merge_heads_def chunks_append)

lemma merge_heads_single:
  "0 < h \<Longrightarrow> length A = h \<Longrightarrow> merge_heads h A = [map concat (transpose A)]"
  using merge_heads_simps(2)[of h A "[]"] by simp

lemma attention_batch_Nil [simp]: "attention_batch rt a h sc p [] c msk = []"
  by (cases p; cases msk) (simp_all add: attention_batch_def Let_def)

lemma attention_batch_single:
  assumes "0 < h"
  shows "length (attention_batch rt a h sc p [xb] [cb] None) = 1"
    and "length (attention_batch rt a h sc p [xb] [cb] (Some [mb])) = 1"
  using assms
  by (cases p; simp add: attention_batch_def Let_def merge_heads_single)+

lemma attention_batch_Cons_unmasked:
  assumes "0 < h"
  shows "attention_batch rt a h sc p (xb # xs) (cb # cs) None =
           attention_batch rt a h sc p [xb] [cb] None @ attention_batch rt a h sc p xs cs None"
  using assms
  by (cases p) (simp_all add: attention_batch_def Let_def merge_heads_single)

lemma attention_batch_Cons_masked:
  assumes "0 < h"
  shows "attention_batch rt a h sc p (xb # xs) (cb # cs) (Some (mb # ms)) =
           attention_batch rt a h sc p [xb] [cb] (Some [mb])
           @ attention_batch rt a h sc p xs cs (Some ms)"
  using assms
  by (cases p) (simp_all add: attention_batch_def Let_def merge_heads_single)

lemma length_attention_batch:
  assumes "0 < h" "length c = length x" "mask_fits msk (length x)"
  shows "length (attention_batch rt a h sc p x c msk) = length x"
  using assms(2,3)
proof (induction x arbitrary: c msk)
  case Nil
  then show ?case by simp
next
  case (Cons xb xs)
  then obtain cb cs where c: "c = cb # cs" and lc: "length cs = length xs" by (cases c) auto
  show ?case
  proof (cases msk)
    case None
    have "length (attention_batch rt a h sc p xs cs None) = length xs"
      by (rule Cons.IH[OF lc]) (simp add: mask_fits_def)
    then show ?thesis
      unfolding None c attention_batch_Cons_unmasked[OF assms(1), where xs = xs and cs = cs]
      using attention_batch_single(1)[OF assms(1), of rt a sc p xb cb] by simp
  next
    case (Some mk)
    with Cons.prems obtain mb ms where m: "mk = mb # ms" and lm: "length ms = length xs"
      by (cases mk) (auto simp: mask_fits_def)
    have "length (attention_batch rt a h sc p xs cs (Some ms)) = length xs"
      by (rule Cons.IH[OF lc]) (simp add: mask_fits_def lm)
    then show ?thesis
      unfolding Some m c attention_batch_Cons_masked[OF assms(1), where xs = xs and cs = cs and ms = ms]
      using attention_batch_single(2)[OF assms(1), of rt a sc p xb cb mb] by simp
  qed
qed

lemma singleton_nth0: "length ys = 1 \<Longrightarrow> ys = [ys ! 0]"
  by (cases ys) simp_all

lemma append_single_nth:
  assumes "length ys = 1"
  shows "(ys @ zs) ! 0 = ys ! 0" and "(ys @ zs) ! Suc n = zs ! n"
  using assms by (cases ys; simp)+

lemma attention_batch_row:
  assumes "0 < h" "b < length x" "length c = length x" "mask_fits msk (length x)"
  shows "attention_batch rt a h sc p [x ! b] [c ! b] (mask_row msk b) =
           [attention_batch rt a h sc p x c msk ! b]"
  using assms(2,3,4)
proof (induction x arbitrary: c msk b)
  case Nil
  then show ?case by simp
next
  case (Cons xb xs)
  then obtain cb cs where c: "c = cb # cs" and lc: "length cs = length xs" by (cases c) auto
  show ?case
  proof (cases msk)
    case None
    note one = attention_batch_single(1)[OF assms(1), of rt a sc p xb cb]
    have mr: "mask_row None n = None" for n by (simp add: mask_row_def)
    show ?thesis
    proof (cases b)
      case 0
      show ?thesis
        unfolding None c 0 mr attention_batch_Cons_unmasked[OF assms(1), where xs = xs and cs = cs] append_single_nth(1)[OF one]
        using singleton_nth0[OF one] by simp
    next
      case (Suc b')
      with Cons.prems have b': "b' < length xs" by simp
      have "attention_batch rt a h sc p [xs ! b'] [cs ! b'] (mask_row None b') =
              [attention_batch rt a h sc p xs cs None ! b']"
        by (rule Cons.IH[OF b' lc]) (simp add: mask_fits_def)
      then show ?thesis
        unfolding None c Suc mr attention_batch_Cons_unmasked[OF assms(1), where xs = xs and cs = cs]
          append_single_nth(2)[OF one] by simp
    qed
  next
    case (Some mk)
    with Cons.prems obtain mb ms where m: "mk = mb # ms" and lm: "length ms = length xs"
      by (cases mk) (auto simp: mask_fits_def)
    note one = attention_batch_single(2)[OF assms(1), of rt a sc p xb cb mb]
    have mr: "mask_row (Some (mb # ms)) 0 = Some [mb]"
      "mask_row (Some (mb # ms)) (Suc n) = mask_row (Some ms) n" for n
      by (simp_all add: mask_row_def)
    show ?thesis
    proof (cases b)
      case 0
      show ?thesis
        unfolding Some m c 0 mr attention_batch_Cons_masked[OF assms(1), where xs = xs and cs = cs and ms = ms] append_single_nth(1)[OF one]
        using singleton_nth0[OF one] by simp
    next
      case (Suc b')
      with Cons.prems have b': "b' < length xs" by simp
      have "attention_batch rt a h sc p [xs ! b'] [cs ! b'] (mask_row (Some ms) b') =
              [attention_batch rt a h sc p xs cs (Some ms) ! b']"
        by (rule Cons.IH[OF b' lc]) (simp add: mask_fits_def lm)
      then show ?thesis
        unfolding Some m c Suc mr attention_batch_Cons_masked[OF assms(1), where xs = xs and cs = cs and ms = ms]
          append_single_nth(2)[OF one] by simp
    qed
  qed
qed

section \<open>The sublayers work on every example by itself\<close>

lemma Dropout_quiet:
  "\<not> training \<or> p = 0 \<Longrightarrow>
     Dropout_forward p training x w = (if p < 0 \<or> 1 < p then Inl ValueError else Inr (x, w))"
  by (auto simp: Dropout_forward_def)

lemma Attention_forward_eq:
  "Attention_forward rt a training x context msk pos_emb w =
     (if heads a \<le> 0 then Inl EinopsError
      else case scale a of
             PyComplex _ _ \<Rightarrow> Inl RuntimeError
           | PyFloat sc \<Rightarrow>
               Dropout_forward (to_out_dropout a) training
                 (attention_batch rt a (nat (heads a)) sc pos_emb x
                    (case context of None \<Rightarrow> x | Some c \<Rightarrow> c) msk) w)"
  by (cases pos_emb; cases "scale a")
     (simp_all add: Attention_forward_def attention_weights_def attention_scores_def
        attention_batch_def Let_def)

lemma Attention_forward_row:
  assumes "b < length x" "case context of None \<Rightarrow> True | Some c \<Rightarrow> length c = length x"
    "mask_fits msk (length x)" "\<not> training \<or> to_out_dropout a = 0"
  shows "rowwise (Attention_forward rt a training x context msk p w)
           (Attention_forward rt a training [x ! b] (map_option (\<lambda>c. [c ! b]) context)
              (mask_row msk b) p w')
           (length x) b"
proof (cases "heads a \<le> 0")
  case True
  then show ?thesis by (simp add: Attention_forward_eq rowwise_def)
next
  case False
  then have h: "0 < nat (heads a)" by simp
  note dq = Dropout_quiet[OF assms(4)]
  show ?thesis
  proof (cases "scale a")
    case (PyComplex re im)
    with False show ?thesis by (simp add: Attention_forward_eq rowwise_def)
  next
    case (PyFloat sc)
    show ?thesis
    proof (cases "context")
      case None
      from False PyFloat show ?thesis
        by (simp add: None Attention_forward_eq rowwise_def dq
            length_attention_batch[OF h refl assms(3)]
            attention_batch_row[OF h assms(1) refl assms(3)])
    next
      case (Some c)
      with assms(2) have lc: "length c = length x" by simp
      from False PyFloat show ?thesis
        by (simp add: Some Attention_forward_eq rowwise_def dq
            length_attention_batch[OF h lc assms(3)]
            attention_batch_row[OF h assms(1) lc assms(3)])
    qed
  qed
qed

lemma over_rows_nth [simp]: "b < length x \<Longrightarrow> over_rows f x ! b = map f (x ! b)"
  by (simp add: over_rows_def)

lemma FeedForward_forward_row:
  assumes "b < length x" "\<not> training \<or> net_dropout f = 0"
  shows "rowwise (FeedForward_forward rt f training x w)
           (FeedForward_forward rt f training [x ! b] w') (length x) b"
  using assms(1)
  by (simp add: FeedForward_forward_def Dropout_quiet[OF assms(2)] rowwise_def)

lemma call_fn_row:
  assumes "b < length x" "kwargs_fit kw (length x)" "quiet_fn training f"
  shows "rowwise (call_fn rt f training x kw w) (call_fn rt f training [x ! b] (kwargs_row kw b) w')
           (length x) b"
proof (cases f)
  case (Attention a)
  with assms(3) have q: "\<not> training \<or> to_out_dropout a = 0" by (simp add: quiet_fn_def)
  show ?thesis
  proof (cases kw)
    case NoKw
    with Attention Attention_forward_row[OF assms(1) _ _ q, of None None rt None w w']
    show ?thesis
      by (simp add: call_fn_def kwargs_row_def mask_fits_def mask_row_def)
  next
    case (CrossKw c mk)
    with assms(2) have "length c = length x" "mask_fits mk (length x)"
      by (simp_all add: kwargs_fit_def)
    with CrossKw Attention Attention_forward_row[OF assms(1) _ _ q, of "Some c" mk rt None w w']
    show ?thesis
      by (simp add: call_fn_def kwargs_row_def)
  next
    case (SelfKw p)
    with Attention Attention_forward_row[OF assms(1) _ _ q, of None None rt p w w']
    show ?thesis
      by (simp add: call_fn_def kwargs_row_def mask_fits_def mask_row_def)
  qed
next
  case (FeedForward ff)
  with assms(3) have q: "\<not> training \<or> net_dropout ff = 0" by (simp add: quiet_fn_def)
  from FeedForward FeedForward_forward_row[OF assms(1) q, of rt w w'] show ?thesis
    by (cases kw) (simp_all add: call_fn_def kwargs_row_def rowwise_def)
qed

lemma PreNorm_forward_row:
  assumes "b < length x" "kwargs_fit kw (length x)" "quiet_fn training (fn pn)"
  shows "rowwise (PreNorm_forward rt pn training x kw w)
           (PreNorm_forward rt pn training [x ! b] (kwargs_row kw b) w') (length x) b"
proof -
  let ?n = "LayerNorm_forward (norm_layer pn)"
  have b': "b < length (over_rows ?n x)" using assms(1) by simp
  show ?thesis
  proof (cases "norm_context pn")
    case None
    with call_fn_row[OF b' _ assms(3), of kw rt w w'] assms show ?thesis
      by (simp add: PreNorm_forward_def)
  next
    case (Some nc)
    show ?thesis
    proof (cases kw)
      case (CrossKw c mk)
      with assms(2) have lc: "length c = length x" "mask_fits mk (length x)"
        by (simp_all add: kwargs_fit_def)
      then have fit: "kwargs_fit (CrossKw (over_rows (LayerNorm_forward nc) c) mk)
                        (length (over_rows ?n x))"
        by (simp add: kwargs_fit_def)
      have "b < length c" using lc assms(1) by simp
      with call_fn_row[OF b' fit assms(3), of rt w w'] Some CrossKw assms(1) show ?thesis
        by (simp add: PreNorm_forward_def kwargs_row_def)
    qed (simp_all add: PreNorm_forward_def Some kwargs_row_def rowwise_def)
  qed
qed

lemma quiet_module:
  "quiet m training \<Longrightarrow> get_module m r = Some pn \<Longrightarrow> quiet_fn training (fn pn)"
  by (auto simp: quiet_def get_module_def split: if_splits)

lemma call_module_row:
  assumes "quiet m training" "b < length x" "kwargs_fit kw (length x)"
  shows "rowwise (call_module rt m training r x kw w)
           (call_module rt m training r [x ! b] (kwargs_row kw b) w') (length x) b"
proof (cases "get_module m r")
  case None
  then show ?thesis by (simp add: call_module_def rowwise_def)
next
  case (Some pn)
  from PreNorm_forward_row[OF assms(2,3) quiet_module[OF assms(1) Some]] Some
  show ?thesis by (simp add: call_module_def)
qed

section \<open>The forward pass works on every example by itself\<close>

lemma rowwise_bind:
  assumes "rowwise F S n b"
    and "\<And>y w w'. length y = n \<Longrightarrow> rowwise (G y w) (G' [y ! b] w') n' b"
  shows "rowwise (ebind F (\<lambda>(y, w). G y w)) (ebind S (\<lambda>(y, w). G' y w)) n' b"
proof (cases F)
  case (Inl e)
  with assms(1) show ?thesis by (simp add: rowwise_def)
next
  case (Inr yw)
  obtain y w where yw: "yw = (y, w)" by (cases yw)
  with Inr assms(1) obtain w' where "length y = n" "S = Inr ([y ! b], w')"
    by (auto simp: rowwise_def)
  with assms(2)[of y w w'] Inr yw show ?thesis by simp
qed

lemma tensor_add_row:
  assumes "b < length x" "length y = length x"
  shows "tensor_add [y ! b] [x ! b] = [tensor_add y x ! b]"
    and "length (tensor_add y x) = length x"
  using assms by (simp_all add: tensor_add_def)

lemma run_self_attns_row:
  assumes "quiet m training" "b < length x"
  shows "rowwise (run_self_attns (rt :: ('e, 't) runtime) m training p blocks x w)
           (run_self_attns rt m training p blocks [x ! b] w') (length x) b"
  using assms(2)
proof (induction blocks arbitrary: x w w')
  case Nil
  then show ?case by (simp add: rowwise_def)
next
  case (Cons blk blocks)
  obtain sa sf where blk: "blk = (sa, sf)" by (cases blk)
  have fit: "kwargs_fit (SelfKw p) n" "kwargs_fit (NoKw :: 't kwargs) n" for n
    by (simp_all add: kwargs_fit_def)
  have row: "kwargs_row (SelfKw p) b = SelfKw p" "kwargs_row (NoKw :: 't kwargs) b = NoKw"
    by (simp_all add: kwargs_row_def)
  show ?case
    unfolding blk run_self_attns.simps
  proof (rule rowwise_bind[OF call_module_row[OF assms(1) Cons.prems fit(1), unfolded row]])
    fix y :: "mat list" and w1 w1' :: "'t world"
    assume y: "length y = length x"
    note t1 = tensor_add_row[OF Cons.prems y]
    have b1: "b < length (tensor_add y x)" using t1(2) Cons.prems by simp
    show "rowwise
            (ebind (call_module rt m training sf (tensor_add y x) NoKw w1)
               (\<lambda>(z, w2). run_self_attns rt m training p blocks (tensor_add z (tensor_add y x)) w2))
            (ebind (call_module rt m training sf (tensor_add [y ! b] [x ! b]) NoKw w1')
               (\<lambda>(z, w2). run_self_attns rt m training p blocks
                             (tensor_add z (tensor_add [y ! b] [x ! b])) w2))
            (length x) b"
      unfolding t1(1)
    proof (rule rowwise_bind[OF call_module_row[OF assms(1) b1 fit(2), unfolded row]])
      fix z :: "mat list" and w2 w2' :: "'t world"
      assume z: "length z = length (tensor_add y x)"
      note t2 = tensor_add_row[OF b1 z]
      have b2: "b < length (tensor_add z (tensor_add y x))" using t2(2) b1 by simp
      from Cons.IH[OF b2, of w2 w2']
      show "rowwise (run_self_attns rt m training p blocks (tensor_add z (tensor_add y x)) w2)
              (run_self_attns rt m training p blocks (tensor_add [z ! b] [tensor_add y x ! b]) w2')
              (length x) b"
        by (simp add: t2 t1)
    qed
  qed
qed

lemma run_layers_row:
  assumes "quiet m training" "b < length x" "length data = length x" "mask_fits msk (length x)"
  shows "rowwise (run_layers (rt :: ('e, 't) runtime) m training data msk p groups x w)
           (run_layers rt m training [data ! b] (mask_row msk b) p groups [x ! b] w') (length x) b"
  using assms(2,3,4)
proof (induction groups arbitrary: x w w')
  case Nil
  then show ?case by (simp add: rowwise_def)
next
  case (Cons g groups)
  obtain ca cf blocks where g: "g = (ca, cf, blocks)" by (cases g)
  have fit: "kwargs_fit (CrossKw data msk) (length x)" "kwargs_fit (NoKw :: 't kwargs) n" for n
    using Cons.prems by (simp_all add: kwargs_fit_def)
  have row: "kwargs_row (CrossKw data msk) b = CrossKw [data ! b] (mask_row msk b)"
    "kwargs_row (NoKw :: 't kwargs) b = NoKw"
    by (simp_all add: kwargs_row_def)
  show ?case
    unfolding g run_layers.simps
  proof (rule rowwise_bind[OF call_module_row[OF assms(1) Cons.prems(1) fit(1), unfolded row]])
    fix y :: "mat list" and w1 w1' :: "'t world"
    assume y: "length y = length x"
    note t1 = tensor_add_row[OF Cons.prems(1) y]
    have b1: "b < length (tensor_add y x)" using t1(2) Cons.prems by simp
    show "rowwise
            (ebind (call_module rt m training cf (tensor_add y x) NoKw w1)
               (\<lambda>(z, w2). ebind (run_self_attns rt m training p blocks
                                   (tensor_add z (tensor_add y x)) w2)
                      (\<lambda>(x', w3). run_layers rt m training data msk p groups x' w3)))
            (ebind (call_module rt m training cf (tensor_add [y ! b] [x ! b]) NoKw w1')
               (\<lambda>(z, w2). ebind (run_self_attns rt m training p blocks
                                   (tensor_add z (tensor_add [y ! b] [x ! b])) w2)
                      (\<lambda>(x', w3). run_layers rt m training [data ! b] (mask_row msk b) p groups
                                     x' w3)))
            (length x) b"
      unfolding t1(1)
    proof (rule rowwise_bind[OF call_module_row[OF assms(1) b1 fit(2), unfolded row]])
      fix z :: "mat list" and w2 w2' :: "'t world"
      assume z: "length z = length (tensor_add y x)"
      note t2 = tensor_add_row[OF b1 z]
      have b2: "b < length (tensor_add z (tensor_add y x))" using t2(2) b1 by simp
      have l2: "length (tensor_add z (tensor_add y x)) = length x" using t2(2) t1(2) by simp
      show "rowwise
              (ebind (run_self_attns rt m training p blocks (tensor_add z (tensor_add y x)) w2)
                 (\<lambda>(x', w3). run_layers rt m training data msk p groups x' w3))
              (ebind (run_self_attns rt m training p blocks
                        (tensor_add [z ! b] [tensor_add y x ! b]) w2')
                 (\<lambda>(x', w3). run_layers rt m training [data ! b] (mask_row msk b) p groups x' w3))
              (length x) b"
        unfolding t2(1)
      proof (rule rowwise_bind[OF run_self_attns_row[OF assms(1) b2]])
        fix x' :: "mat list" and w3 w3' :: "'t world"
        assume x': "length x' = length (tensor_add z (tensor_add y x))"
        have "b < length x'" "length data = length x'" "mask_fits msk (length x')"
          using x' l2 Cons.prems by simp_all
        from Cons.IH[OF this, of w3 w3']
        show "rowwise (run_layers rt m training data msk p groups x' w3)
            (run_layers rt m training [data ! b] (mask_row msk b) p groups [x' ! b] w3')
            (length x) b"
          using x' l2 by simp
      qed
    qed
  qed
qed

lemma encode_input_row:
  assumes "b < length (tokens d)"
  shows "case encode_input m (length (tokens d)) (axis d) d of
           Inl e \<Rightarrow> encode_input m 1 (axis d) (d\<lparr>tokens := [tokens d ! b]\<rparr>) = Inl e
         | Inr data \<Rightarrow>
             length data = length (tokens d)
             \<and> encode_input m 1 (axis d) (d\<lparr>tokens := [tokens d ! b]\<rparr>) = Inr [data ! b]"
proof (cases "p_fourier_encode_data m")
  case False
  then show ?thesis by (simp add: encode_input_def)
next
  case True
  with assms show ?thesis
    by (cases "position_features m (axis d)") (simp_all add: encode_input_def)
qed

lemma rotary_table_cases:
  "\<exists>v. rotary_table rt m w = (p, v) \<Longrightarrow> \<exists>v'. rotary_table rt m w' = (p, v')"
  by (cases "sinu_emb m") (auto simp: rotary_table_def Let_def)

lemma forward_latents_row:
  assumes "quiet m training" "b < length (tokens d)" "mask_fits msk (length (tokens d))"
  shows "rowwise (forward_latents rt m training (length (tokens d)) (axis d) d msk w)
           (forward_latents rt m training 1 (axis d) (d\<lparr>tokens := [tokens d ! b]\<rparr>)
              (mask_row msk b) w')
           (length (tokens d)) b"
proof (cases "int (length (axis d)) \<noteq> p_input_axis m")
  case True
  then show ?thesis by (simp add: forward_latents_def rowwise_def)
next
  case False
  let ?B = "length (tokens d)"
  obtain p w1 where r1: "rotary_table rt m w = (p, w1)" by (cases "rotary_table rt m w")
  with rotary_table_cases[of rt m w p w'] obtain w1' where r2: "rotary_table rt m w' = (p, w1')"
    by auto
  note e = encode_input_row[OF assms(2), of m]
  show ?thesis
  proof (cases "encode_input m ?B (axis d) d")
    case (Inl err)
    with e False show ?thesis by (simp add: forward_latents_def rowwise_def)
  next
    case (Inr data)
    with e have ld: "length data = ?B"
      and single: "encode_input m 1 (axis d) (d\<lparr>tokens := [tokens d ! b]\<rparr>) = Inr [data ! b]"
      by simp_all
    from run_layers_row[OF assms(1), of b "replicate ?B (latents m)" data msk rt p "layers m" w1 w1']
      assms(2,3) ld
    have "rowwise (run_layers rt m training data msk p (layers m) (replicate ?B (latents m)) w1)
            (run_layers rt m training [data ! b] (mask_row msk b) p (layers m) [latents m] w1')
            ?B b"
      by simp
    with False Inr single r1 r2 show ?thesis
      by (simp add: forward_latents_def Let_def)
  qed
qed

lemma forward_body_row:
  assumes "quiet m training" "b < length (tokens d)" "mask_fits msk (length (tokens d))"
  shows "rowwise (forward_body (rt :: ('e, 't) runtime) m training (length (tokens d)) (axis d) d msk w)
           (forward_body rt m training 1 (axis d) (d\<lparr>tokens := [tokens d ! b]\<rparr>)
              (mask_row msk b) w')
           (length (tokens d)) b"
  unfolding forward_body_def
proof (rule rowwise_bind[OF forward_latents_row[OF assms]])
  fix x :: "mat list" and w1 w1' :: "'t world"
  assume "length x = length (tokens d)"
  with assms(2) show "rowwise
      (Inr (map (\<lambda>xb. Linear_forward (snd (to_logits m))
               (LayerNorm_forward (fst (to_logits m)) (mean_latents xb))) x, w1))
      (Inr (map (\<lambda>xb. Linear_forward (snd (to_logits m))
               (LayerNorm_forward (fst (to_logits m)) (mean_latents xb))) [x ! b], w1'))
      (length (tokens d)) b"
    by (simp add: rowwise_def)
qed

lemma rowwise_select:
  "rowwise F S n b \<Longrightarrow> map_sum id (\<lambda>(l, w). l ! b) F = map_sum id (\<lambda>(l, w). l ! 0) S"
  by (cases F) (auto simp: rowwise_def)

section \<open>Output projections with zero weights\<close>

lemma dot_zero: "\<forall>v\<in>set w. v = 0 \<Longrightarrow> dot w x = 0"
  unfolding dot_def
proof (induction w arbitrary: x)
  case Nil
  show ?case by simp
next
  case (Cons a w)
  then show ?case by (cases x) simp_all
qed

lemma map_const_replicate: "\<forall>x\<in>set xs. f x = c \<Longrightarrow> map f xs = replicate (length xs) c"
  by (induction xs) simp_all

lemma add_zero_row: "length row = k \<Longrightarrow> map2 (+) (replicate k (0::real)) row = row"
  by (induction row arbitrary: k) auto

lemma Linear_forward_const:
  assumes "const_linear l c"
  shows "Linear_forward l x = c"
proof -
  have "map (\<lambda>w. dot w x) (weight l) = replicate (length c) 0"
    using assms map_const_replicate[of "weight l" "\<lambda>w. dot w x" 0]
    by (simp add: const_linear_def dot_zero)
  with assms show ?thesis
    by (cases "bias l") (simp_all add: Linear_forward_def const_linear_def add_zero_row)
qed

lemma map_const_linear:
  assumes "const_linear l c"
  shows "map (Linear_forward l) xs = replicate (length xs) c"
  by (induction xs) (simp_all add: Linear_forward_const[OF assms])

lemma const_tensor_simps [simp]:
  "const_tensor c [] = []"
  "const_tensor c (ex # x) = replicate (length ex) c # const_tensor c x"
  "length (const_tensor c x) = length x"
  "const_tensor c (over_rows f x) = const_tensor c x"
  by (simp_all add: const_tensor_def over_rows_def)

lemma const_tensor_nth [simp]:
  "b < length x \<Longrightarrow> const_tensor c x ! b = replicate (length (x ! b)) c"
  by (simp add: const_tensor_def)

lemma over_rows_const:
  assumes "const_linear l c"
  shows "over_rows (Linear_forward l) x = const_tensor c x"
  by (simp add: over_rows_def const_tensor_def map_const_linear[OF assms])

lemma add_zero_example:
  "\<forall>row\<in>set ex. length row = k \<Longrightarrow>
     map2 (map2 (+)) (replicate (length ex) (replicate k (0::real))) ex = ex"
  by (induction ex) (simp_all add: add_zero_row)

lemma tensor_add_zeros:
  assumes "\<forall>ex\<in>set x. \<forall>row\<in>set ex. length row = k"
  shows "tensor_add (const_tensor (replicate k 0) x) x = x"
  using assms
  by (induction x) (simp_all add: tensor_add_def add_zero_example)

lemma length_transpose_all:
  assumes "A \<noteq> []" "\<forall>a\<in>set A. length a = n"
  shows "length (transpose A) = n"
proof -
  have "foldr (\<lambda>xs. max (length xs)) A 0 = (if A = [] then 0 else n)"
    using assms(2) by (induction A) auto
  with assms(1) show ?thesis by (simp add: length_transpose)
qed

lemma all_len_heads_of: "\<forall>t'\<in>set (heads_of h t). length t' = length t"
  by (auto simp: heads_of_def)

lemma all_len_rotary:
  "\<forall>t\<in>set A. length t = n \<Longrightarrow> \<forall>t\<in>set (apply_rotary_emb rt tab A). length t = n"
  by (auto simp: apply_rotary_emb_def)

lemma all_len_sim_scores:
  "\<forall>t\<in>set q. length t = n \<Longrightarrow> \<forall>t\<in>set (sim_scores sc q k). length t = n"
  by (auto simp: sim_scores_def dest: set_zip_leftD)

lemma all_len_masked_fill:
  "\<forall>t\<in>set sim. length t = n \<Longrightarrow> \<forall>t\<in>set (masked_fill sim M v). length t = n"
  by (auto simp: masked_fill_def dest: set_zip_leftD)

lemma all_len_over_rows:
  "\<forall>t\<in>set A. length t = n \<Longrightarrow> \<forall>t\<in>set (over_rows f A). length t = n"
  by (auto simp: over_rows_def)

lemma all_len_weighted_values:
  "\<forall>t\<in>set attn. length t = n \<Longrightarrow> \<forall>t\<in>set (weighted_values attn v). length t = n"
  by (auto simp: weighted_values_def dest: set_zip_leftD)

lemma attention_batch_single_const:
  assumes "0 < h" "const_linear (to_out a) c" "m1 = None \<or> (\<exists>mb. m1 = Some [mb])"
  shows "attention_batch rt a h sc p [xb] [cb] m1 = [replicate (length xb) c]"
proof -
  let ?rot = "\<lambda>t. case p of None \<Rightarrow> t | Some tab \<Rightarrow> apply_rotary_emb rt tab t"
  let ?q = "heads_of h (map (Linear_forward (to_q a)) xb)"
  let ?kv = "map (Linear_forward (to_kv a)) cb"
  let ?k = "heads_of h (map (\<lambda>r. fst (chunk2 r)) ?kv)"
  let ?v = "heads_of h (map (\<lambda>r. snd (chunk2 r)) ?kv)"
  let ?sim = "sim_scores sc (?rot ?q) (?rot ?k)"
  let ?sim' = "case m1 of None \<Rightarrow> ?sim
               | Some mk \<Rightarrow> masked_fill ?sim (repeat_mask h mk) (- finfo_max rt)"
  let ?A = "weighted_values (over_rows (softmax rt) ?sim') ?v"
  have lrot: "length (?rot t) = length t" for t by (cases p) simp_all
  have arot: "\<forall>t'\<in>set (?rot t). length t' = n" if "\<forall>t'\<in>set t. length t' = n" for t n
    using that all_len_rotary[OF that] by (cases p) simp_all
  have "\<forall>t\<in>set ?q. length t = length xb" using all_len_heads_of[of h] by simp
  then have s: "\<forall>t\<in>set ?sim. length t = length xb"
    by (intro all_len_sim_scores arot)
  have s': "\<forall>t\<in>set ?sim'. length t = length xb"
  proof (cases m1)
    case None
    show ?thesis unfolding None option.case by (rule s)
  next
    case (Some mk)
    show ?thesis unfolding Some option.case by (rule all_len_masked_fill[OF s])
  qed
  have ls: "length ?sim = h" by (simp add: lrot)
  have ls': "length ?sim' = h"
  proof (cases m1)
    case None
    show ?thesis unfolding None option.case by (rule ls)
  next
    case (Some mk)
    with assms(3) obtain mb where mk: "mk = [mb]" by auto
    have "length (masked_fill ?sim (repeat_mask h [mb]) (- finfo_max rt)) = h"
      unfolding length_masked_fill ls by simp
    then show ?thesis unfolding Some mk option.case .
  qed
  have allA: "\<forall>t\<in>set ?A. length t = length xb"
    by (intro all_len_weighted_values all_len_over_rows s')
  have lA: "length ?A = h" by (simp add: ls')
  have "?A \<noteq> []"
  proof
    assume "?A = []"
    then have "length ?A = 0" by (simp only: list.size)
    with lA assms(1) show False by linarith
  qed
  from length_transpose_all[OF this allA] have lt: "length (transpose ?A) = length xb" .
  have "attention_batch rt a h sc p [xb] [cb] m1 =
          over_rows (Linear_forward (to_out a)) (merge_heads h ?A)"
    unfolding attention_batch_def Let_def over_rows_simps split_heads_simps append_Nil2
    by (rule refl)
  also have "\<dots> = [map (Linear_forward (to_out a)) (map concat (transpose ?A))]"
    unfolding merge_heads_single[OF assms(1) lA] over_rows_simps by (rule refl)
  also have "\<dots> = [replicate (length xb) c]"
    unfolding map_const_linear[OF assms(2)] length_map lt by (rule refl)
  finally show ?thesis .
qed

lemma attention_batch_const:
  assumes "0 < h" "const_linear (to_out a) c" "length cs = length x" "mask_fits msk (length x)"
  shows "attention_batch rt a h sc p x cs msk = const_tensor c x"
proof (rule nth_equalityI)
  show "length (attention_batch rt a h sc p x cs msk) = length (const_tensor c x)"
    by (simp add: length_attention_batch[OF assms(1,3,4)])
next
  fix b assume "b < length (attention_batch rt a h sc p x cs msk)"
  then have b: "b < length x" by (simp add: length_attention_batch[OF assms(1,3,4)])
  have m1: "mask_row msk b = None \<or> (\<exists>mb. mask_row msk b = Some [mb])"
    by (cases msk) (simp_all add: mask_row_def)
  have "[attention_batch rt a h sc p x cs msk ! b] = [replicate (length (x ! b)) c]"
    unfolding attention_batch_row[OF assms(1) b assms(3,4), of rt a sc p, symmetric]
    by (rule attention_batch_single_const[OF assms(1,2) m1])
  then have "attention_batch rt a h sc p x cs msk ! b = replicate (length (x ! b)) c"
    by (simp only: list.inject)
  then show "attention_batch rt a h sc p x cs msk ! b = const_tensor c x ! b"
    using b by (simp only: const_tensor_nth)
qed

lemma Attention_forward_const:
  assumes "0 < heads a" "scale a = PyFloat sc" "const_linear (to_out a) c"
    and "case context of None \<Rightarrow> True | Some cs \<Rightarrow> length cs = length x"
    and "mask_fits msk (length x)"
  shows "Attention_forward rt a training x context msk p w =
           Dropout_forward (to_out_dropout a) training (const_tensor c x) w"
proof -
  from assms(1) have h: "0 < nat (heads a)" by simp
  have "length (case context of None \<Rightarrow> x | Some cs \<Rightarrow> cs) = length x"
    using assms(4) by (cases "context") simp_all
  from attention_batch_const[OF h assms(3) this assms(5), of rt sc p] assms(1,2) show ?thesis
    by (simp add: Attention_forward_eq)
qed

section \<open>Dropout keeps the shape, and zeros\<close>

lemma drop_vec_zero [simp]: "drop_vec keep q i (replicate k 0) = replicate k 0"
  by (induction k arbitrary: i) simp_all

lemma drop_mat_zero [simp]:
  "drop_mat keep q i (replicate n (replicate k 0)) = replicate n (replicate k 0)"
  by (induction n arbitrary: i) simp_all

lemma drop_tensor_zero [simp]:
  "drop_tensor keep q i (const_tensor (replicate k 0) x) = const_tensor (replicate k 0) x"
  by (induction x arbitrary: i) simp_all

lemma length_drop_mat [simp]: "length (drop_mat keep q i t) = length t"
  by (induction t arbitrary: i) simp_all

lemma shape_drop_tensor [simp]: "map length (drop_tensor keep q i x) = map length x"
  by (induction x arbitrary: i) simp_all

lemma const_tensor_shape:
  assumes "map length y = map length x"
  shows "const_tensor c y = const_tensor c x"
proof -
  have "const_tensor c z = map (\<lambda>n. replicate n c) (map length z)" for z :: "mat list"
    by (simp add: const_tensor_def)
  then show ?thesis by (simp only: assms)
qed

lemma Dropout_forward_ok:
  assumes "dropout_ok p"
  shows "\<exists>y w'. Dropout_forward p training x w = Inr (y, w')
           \<and> map length y = map length x \<and> trace w' = trace w"
  using assms by (simp add: Dropout_forward_def dropout_ok_def comp_def)

lemma Dropout_forward_zero:
  assumes "dropout_ok p"
  shows "\<exists>w'. Dropout_forward p training (const_tensor (replicate k 0) x) w
                = Inr (const_tensor (replicate k 0) x, w') \<and> trace w' = trace w"
proof -
  have "map (map (map (\<lambda>_. 0::real))) (const_tensor (replicate k 0) x)
          = const_tensor (replicate k 0) x"
    by (simp add: const_tensor_def map_replicate_const)
  with assms show ?thesis
    by (simp add: Dropout_forward_def dropout_ok_def)
qed

lemma FeedForward_forward_const:
  assumes "const_linear (net_out f) c" "dropout_ok (net_dropout f)"
  shows "\<exists>w'. FeedForward_forward rt f training x w = Inr (const_tensor c x, w')
           \<and> trace w' = trace w"
proof -
  let ?y0 = "over_rows (\<lambda>r. GEGLU_forward (gelu rt) (Linear_forward (net_in f) r)) x"
  from Dropout_forward_ok[OF assms(2), of training ?y0 w] obtain y w' where
    d: "Dropout_forward (net_dropout f) training ?y0 w = Inr (y, w')"
    and sh: "map length y = map length ?y0" and tr: "trace w' = trace w"
    by blast
  have "const_tensor c y = const_tensor c x"
    using const_tensor_shape[OF sh, of c] by simp
  with d tr show ?thesis
    by (simp add: FeedForward_forward_def over_rows_const[OF assms(1)])
qed

section \<open>Calls of sublayers whose output projection has zero weights\<close>

lemma call_module_attention:
  assumes "get_module m r = Some pn" "fn pn = Attention a" "0 < heads a" "scale a = PyFloat sc"
    and "const_linear (to_out a) c"
    and "case kw of CrossKw data mk \<Rightarrow> length data = length x \<and> mask_fits mk (length x)
         | _ \<Rightarrow> norm_context pn = None"
  shows "call_module rt m training r x kw w =
           Dropout_forward (to_out_dropout a) training (const_tensor c x)
             (w\<lparr>trace := trace w @ [Call r (pos_emb_of kw)]\<rparr>)"
proof -
  let ?x = "over_rows (LayerNorm_forward (norm_layer pn)) x"
  note ac = Attention_forward_const[OF assms(3,4,5)]
  show ?thesis
  proof (cases kw)
    case NoKw
    with assms(1,2,6) show ?thesis
      by (simp add: call_module_def PreNorm_forward_def call_fn_def ac mask_fits_def)
  next
    case (SelfKw p)
    with assms(1,2,6) show ?thesis
      by (simp add: call_module_def PreNorm_forward_def call_fn_def ac mask_fits_def)
  next
    case (CrossKw data mk)
    with assms(6) have fit: "length data = length x" "mask_fits mk (length x)" by simp_all
    show ?thesis
    proof (cases "norm_context pn")
      case None
      with CrossKw assms(1,2) fit show ?thesis
        by (simp add: call_module_def PreNorm_forward_def call_fn_def ac)
    next
      case (Some nc)
      with CrossKw assms(1,2) fit show ?thesis
        by (simp add: call_module_def PreNorm_forward_def call_fn_def ac)
    qed
  qed
qed

lemma call_module_feed_forward:
  assumes "get_module m r = Some pn" "fn pn = FeedForward f" "norm_context pn = None"
    and "const_linear (net_out f) c" "dropout_ok (net_dropout f)"
  shows "\<exists>w'. call_module rt m training r x NoKw w = Inr (const_tensor c x, w')
           \<and> trace w' = trace w @ [Call r None]"
proof -
  let ?x = "over_rows (LayerNorm_forward (norm_layer pn)) x"
  let ?w = "w\<lparr>trace := trace w @ [Call r None]\<rparr>"
  from FeedForward_forward_const[OF assms(4,5), where rt = rt and training = training
      and x = ?x and w = ?w]
  obtain w' where "FeedForward_forward rt f training ?x ?w = Inr (const_tensor c x, w')"
    and "trace w' = trace ?w"
    by auto
  with assms(1,2,3) show ?thesis
    by (simp add: call_module_def PreNorm_forward_def call_fn_def pos_emb_of_def)
qed

lemma attn_slot_call:
  assumes "attn_slot m r (replicate k 0) cross"
    and "case kw of CrossKw data mk \<Rightarrow> length data = length x \<and> mask_fits mk (length x)
         | _ \<Rightarrow> \<not> cross"
  shows "\<exists>w'. call_module rt m training r x kw w = Inr (const_tensor (replicate k 0) x, w')
           \<and> trace w' = trace w @ [Call r (pos_emb_of kw)]"
proof -
  from assms(1) obtain pn a sc where pn: "get_module m r = Some pn" "fn pn = Attention a"
    and a: "0 < heads a" "scale a = PyFloat sc" "const_linear (to_out a) (replicate k 0)"
      "dropout_ok (to_out_dropout a)"
    and nc: "cross \<or> norm_context pn = None"
    by (auto simp: attn_slot_def split: option.splits sublayer.splits pynum.splits)
  have kw: "case kw of CrossKw data mk \<Rightarrow> length data = length x \<and> mask_fits mk (length x)
            | _ \<Rightarrow> norm_context pn = None"
    using assms(2) nc by (cases kw) auto
  from Dropout_forward_zero[OF a(4), where training = training and k = k and x = x
      and w = "w\<lparr>trace := trace w @ [Call r (pos_emb_of kw)]\<rparr>"]
  show ?thesis
    unfolding call_module_attention[OF pn a(1,2,3) kw] by simp
qed

lemma ff_slot_call:
  assumes "ff_slot m r (replicate k 0)"
  shows "\<exists>w'. call_module rt m training r x NoKw w = Inr (const_tensor (replicate k 0) x, w')
           \<and> trace w' = trace w @ [Call r None]"
proof -
  from assms obtain pn f where "get_module m r = Some pn" "fn pn = FeedForward f"
    "norm_context pn = None" "const_linear (net_out f) (replicate k 0)"
    "dropout_ok (net_dropout f)"
    by (auto simp: ff_slot_def split: option.splits sublayer.splits)
  from call_module_feed_forward[OF this] show ?thesis .
qed

section \<open>The loops over sublayers with zeroed output projections\<close>

lemma run_self_attns_zero:
  assumes "\<forall>(sa, sf)\<in>set blocks.
             attn_slot m sa (replicate k 0) False \<and> ff_slot m sf (replicate k 0)"
    and "\<forall>ex\<in>set x. \<forall>row\<in>set ex. length row = k"
  shows "\<exists>w'. run_self_attns rt m training p blocks x w = Inr (x, w')"
  using assms(1)
proof (induction blocks arbitrary: w)
  case Nil
  show ?case by simp
next
  case (Cons blk blocks)
  obtain sa sf where blk: "blk = (sa, sf)" by (cases blk)
  with Cons.prems have sa: "attn_slot m sa (replicate k 0) False"
    and sf: "ff_slot m sf (replicate k 0)"
    and rest: "\<forall>(sa, sf)\<in>set blocks.
                 attn_slot m sa (replicate k 0) False \<and> ff_slot m sf (replicate k 0)"
    by simp_all
  note z = tensor_add_zeros[OF assms(2)]
  from attn_slot_call[OF sa, where kw = "SelfKw p" and x = x and rt = rt and training = training
      and w = w] obtain w1 where
    c1: "call_module rt m training sa x (SelfKw p) w = Inr (const_tensor (replicate k 0) x, w1)"
    by auto
  from ff_slot_call[OF sf, where rt = rt and training = training and x = x and w = w1]
  obtain w2 where
    c2: "call_module rt m training sf x NoKw w1 = Inr (const_tensor (replicate k 0) x, w2)"
    by auto
  from Cons.IH[OF rest, where w = w2] obtain w' where
    "run_self_attns rt m training p blocks x w2 = Inr (x, w')" by auto
  then show ?case
    by (simp add: blk c1 z c2)
qed

lemma run_layers_zero:
  assumes "\<forall>g\<in>set groups. group_zero m k g"
    and "\<forall>ex\<in>set x. \<forall>row\<in>set ex. length row = k"
    and "length data = length x" "mask_fits msk (length x)"
  shows "\<exists>w'. run_layers rt m training data msk p groups x w = Inr (x, w')"
  using assms(1)
proof (induction groups arbitrary: w)
  case Nil
  show ?case by simp
next
  case (Cons g groups)
  obtain ca cf blocks where g: "g = (ca, cf, blocks)" by (cases g)
  with Cons.prems have ca: "attn_slot m ca (replicate k 0) True"
    and cf: "ff_slot m cf (replicate k 0)"
    and bl: "\<forall>(sa, sf)\<in>set blocks.
               attn_slot m sa (replicate k 0) False \<and> ff_slot m sf (replicate k 0)"
    and rest: "\<forall>g\<in>set groups. group_zero m k g"
    by (simp_all add: group_zero_def)
  note z = tensor_add_zeros[OF assms(2)]
  from attn_slot_call[OF ca, where kw = "CrossKw data msk" and x = x and rt = rt
      and training = training and w = w] assms(3,4) obtain w1 where
    c1: "call_module rt m training ca x (CrossKw data msk) w
           = Inr (const_tensor (replicate k 0) x, w1)"
    by auto
  from ff_slot_call[OF cf, where rt = rt and training = training and x = x and w = w1]
  obtain w2 where
    c2: "call_module rt m training cf x NoKw w1 = Inr (const_tensor (replicate k 0) x, w2)"
    by auto
  from run_self_attns_zero[OF bl assms(2), where rt = rt and training = training and p = p
      and w = w2] obtain w3 where
    c3: "run_self_attns rt m training p blocks x w2 = Inr (x, w3)" by auto
  from Cons.IH[OF rest, where w = w3] obtain w' where
    "run_layers rt m training data msk p groups x w3 = Inr (x, w')" by auto
  then show ?case
    by (simp add: g c1 z c2 c3)
qed


section \<open>Claims about the residual loop\<close>




section \<open>Claims about the batch rows\<close>

lemma call_module_feed_forward_quiet:
  assumes "get_module m r = Some pn" "fn pn = FeedForward f" "norm_context pn = None"
    and "const_linear (net_out f) c" "net_dropout f = 0"
  shows "call_module rt m training r x NoKw w
           = Inr (const_tensor c x, w\<lparr>trace := trace w @ [Call r None]\<rparr>)"
  using assms(1,2,3,5)
  by (simp add: call_module_def PreNorm_forward_def call_fn_def pos_emb_of_def
      FeedForward_forward_def Dropout_forward_def over_rows_const[OF assms(4)])

text \<open>
  C10 (as amended). Batch noninterference of the statements of \<open>Perceiver.forward\<close> after
  line 342, run with the batch size and the axes of the data: when dropout does nothing
  (evaluation mode, or every dropout probability of the model is 0), two calls, from
  whatever states, on inputs of the same spatial shape that agree on batch row \<open>b\<close>, with
  masks (when supplied, of the batch size of their input) that agree on row \<open>b\<close>, give the
  same error or logits that agree on row \<open>b\<close>; and row \<open>b\<close> of a result is what the model
  returns for row \<open>b\<close> of the input and of the mask alone.
\<close>

theorem batch_noninterference:
  assumes "quiet m training"
    and "axis d1 = axis d2" "b < length (tokens d1)" "b < length (tokens d2)"
    and "tokens d1 ! b = tokens d2 ! b"
    and "mask_fits msk1 (length (tokens d1))" "mask_fits msk2 (length (tokens d2))"
    and "mask_row msk1 b = mask_row msk2 b"
  shows "map_sum id (\<lambda>(l, w). l ! b)
           (forward_body rt m training (length (tokens d1)) (axis d1) d1 msk1 w1) =
         map_sum id (\<lambda>(l, w). l ! b)
           (forward_body rt m training (length (tokens d2)) (axis d2) d2 msk2 w2)
       \<and> map_sum id (\<lambda>(l, w). l ! b)
           (forward_body rt m training (length (tokens d1)) (axis d1) d1 msk1 w1) =
         map_sum id (\<lambda>(l, w). l ! 0)
           (forward_body rt m training 1 (axis d1) (d1\<lparr>tokens := [tokens d1 ! b]\<rparr>)
              (mask_row msk1 b) w3)"
proof -
  have same: "d1\<lparr>tokens := [tokens d1 ! b]\<rparr> = d2\<lparr>tokens := [tokens d2 ! b]\<rparr>"
    using assms(2,5) by (cases d1; cases d2) simp
  note r1 = rowwise_select[OF forward_body_row[OF assms(1,3,6), where rt = rt and w = w1
        and w' = w3]]
  note r2 = rowwise_select[OF forward_body_row[OF assms(1,4,7), where rt = rt and w = w2
        and w' = w3]]
  from r1 r2 show ?thesis
    by (simp add: same assms(2,8))
qed

lemma quiet_zero_model: "quiet zero_model True"
  by (simp add: quiet_def quiet_fn_def zero_model_def)

theorem batch_noninterference_witness:
  "map_sum id (\<lambda>(l, w). l ! 1)
     (forward_body float_runtime zero_model True 2 [2] two_examples None start_world) =
   map_sum id (\<lambda>(l, w). l ! 1)
     (forward_body float_runtime zero_model True 2 [2] two_other_examples None next_world)"
  using batch_noninterference[OF quiet_zero_model, where ?d1.0 = two_examples
      and ?d2.0 = two_other_examples and b = 1 and ?msk1.0 = None and ?msk2.0 = None
      and rt = float_runtime and ?w1.0 = start_world and ?w2.0 = next_world
      and ?w3.0 = start_world]
  by (simp add: two_examples_def two_other_examples_def mask_fits_def mask_row_def
      numeral_2_eq_2)

text \<open>
  The claim as stated fails in training mode, the mode of a model after construction, when
  a dropout probability is positive: two calls on the same input draw different decisions
  from the generator. On \<open>one_example\<close>, \<open>dropout_model\<close> in training mode leaves
  \<open>start_world\<close> as \<open>next_world\<close>, and its logits from these two states differ.
\<close>

lemma dropout_model_latents:
  "forward_latents float_runtime dropout_model True 1 [1] one_example None start_world
     = Inr ([[[3, 2]]], next_world)"
  "forward_latents float_runtime dropout_model True 1 [1] one_example None next_world
     = Inr ([[[1, 2]]], next_world\<lparr>gen_offset := 4,
              trace := [Call 0 None, Call 1 None, Call 0 None, Call 1 None]\<rparr>)"
proof -
  let ?A = "\<lparr>scale = PyFloat 1, heads = 1, to_q = \<lparr>weight = [[0, 0]], bias = None\<rparr>,
             to_kv = \<lparr>weight = [[0], [0]], bias = None\<rparr>,
             to_out = \<lparr>weight = [[0], [0]], bias = Some [1, 1]\<rparr>, to_out_dropout = 1 / 2\<rparr>"
  let ?F = "\<lparr>net_in = \<lparr>weight = [[0, 0], [0, 0]], bias = Some [0, 0]\<rparr>, net_dropout = 0,
             net_out = \<lparr>weight = [[0], [0]], bias = Some [0, 0]\<rparr>\<rparr>"
  let ?x = "[[[1, 2]]] :: mat list"
  have gm: "get_module dropout_model 0 = Some (modules dropout_model ! 0)"
    "get_module dropout_model (Suc 0) = Some (modules dropout_model ! Suc 0)"
    by (simp_all add: get_module_def dropout_model_def)
  have fnA: "fn (modules dropout_model ! 0) = Attention ?A"
    and fnF: "fn (modules dropout_model ! Suc 0) = FeedForward ?F"
    and ncF: "norm_context (modules dropout_model ! Suc 0) = None"
    by (simp_all add: dropout_model_def)
  have cl: "const_linear (to_out ?A) [1, 1]" "const_linear (net_out ?F) [0, 0]"
    by (simp_all add: const_linear_def)
  have att: "call_module float_runtime dropout_model True 0 ?x (CrossKw [[[5]]] None) w
          = Dropout_forward (1 / 2) True [[[1, 1]]] (w\<lparr>trace := trace w @ [Call 0 None]\<rparr>)"
    for w :: "unit world"
  proof -
    have "call_module float_runtime dropout_model True 0 ?x (CrossKw [[[5]]] None) w
          = Dropout_forward (to_out_dropout ?A) True (const_tensor [1, 1] ?x)
              (w\<lparr>trace := trace w @ [Call 0 (pos_emb_of (CrossKw [[[5]]] None))]\<rparr>)"
      by (rule call_module_attention[OF gm(1) fnA _ _ cl(1)]) (simp_all add: mask_fits_def)
    then show ?thesis by (simp add: pos_emb_of_def)
  qed
  have ff: "call_module float_runtime dropout_model True (Suc 0) y NoKw w
          = Inr (const_tensor [0, 0] y, w\<lparr>trace := trace w @ [Call (Suc 0) None]\<rparr>)"
    for w :: "unit world" and y
    by (rule call_module_feed_forward_quiet[OF gm(2) fnF ncF cl(2)]) simp
  have l: "layers dropout_model = [(0, Suc 0, [])]" "latents dropout_model = [[1, 2]]"
    "p_input_axis dropout_model = 1" "p_fourier_encode_data dropout_model = False"
    "sinu_emb dropout_model = None"
    by (simp_all add: dropout_model_def)
  show "forward_latents float_runtime dropout_model True 1 [1] one_example None start_world
     = Inr ([[[3, 2]]], next_world)"
    by (simp add: forward_latents_def encode_input_def rotary_table_def l one_example_def
        att ff Dropout_forward_def numel_def numel_mat_def start_world_def next_world_def
        tensor_add_def)
  show "forward_latents float_runtime dropout_model True 1 [1] one_example None next_world
     = Inr ([[[1, 2]]], next_world\<lparr>gen_offset := 4,
              trace := [Call 0 None, Call 1 None, Call 0 None, Call 1 None]\<rparr>)"
    by (simp add: forward_latents_def encode_input_def rotary_table_def l one_example_def
        att ff Dropout_forward_def numel_def numel_mat_def next_world_def tensor_add_def)
qed

lemma mean_latents_single: "mean_latents [[u, v]] = [u, v]"
  by (simp add: mean_latents_def)

lemma dropout_model_logits:
  "Linear_forward (snd (to_logits dropout_model))
     (LayerNorm_forward (fst (to_logits dropout_model)) [3, 2]) = [1 / 2 / sqrt (25001 / 100000)]"
  "Linear_forward (snd (to_logits dropout_model))
     (LayerNorm_forward (fst (to_logits dropout_model)) [1, 2])
     = [- (1 / 2) / sqrt (25001 / 100000)]"
  by (simp_all add: dropout_model_def LayerNorm_forward_def Linear_forward_def dot_def
      power2_eq_square)

theorem batch_noninterference_counterexample:
  "map_sum id snd
     (forward_body float_runtime dropout_model True 1 [1] one_example None start_world)
     = Inr next_world
   \<and> map_sum id fst
       (forward_body float_runtime dropout_model True 1 [1] one_example None start_world)
     \<noteq> map_sum id fst
         (forward_body float_runtime dropout_model True 1 [1] one_example None next_world)"
proof -
  have "0 < sqrt (25001 / 100000 :: real)" by simp
  then have "1 / 2 / sqrt (25001 / 100000) \<noteq> - (1 / 2) / sqrt (25001 / 100000 :: real)"
    by (simp add: field_simps)
  then show ?thesis
    unfolding forward_body_def dropout_model_latents
    by (simp add: mean_latents_single dropout_model_logits)
qed

section \<open>The calls of a forward pass\<close>

lemma Dropout_forward_trace:
  "Dropout_forward p training x w = Inr (y, w') \<Longrightarrow> trace w' = trace w"
  by (auto simp: Dropout_forward_def split: if_splits)

lemma Attention_forward_trace:
  assumes "Attention_forward rt a training x context msk p w = Inr (y, w')"
  shows "trace w' = trace w"
  using assms
  by (auto simp: Attention_forward_eq split: if_splits pynum.splits dest: Dropout_forward_trace)

lemma FeedForward_forward_trace:
  assumes "FeedForward_forward rt f training x w = Inr (y, w')"
  shows "trace w' = trace w"
  using assms
  by (auto simp: FeedForward_forward_def ebind_Inr dest: Dropout_forward_trace)

lemma call_fn_trace:
  assumes "call_fn rt f training x kw w = Inr (y, w')"
  shows "trace w' = trace w"
  using assms
  by (auto simp: call_fn_def split: sublayer.splits kwargs.splits
      dest: Attention_forward_trace FeedForward_forward_trace)

lemma PreNorm_forward_trace:
  assumes "PreNorm_forward rt pn training x kw w = Inr (y, w')"
  shows "trace w' = trace w"
  using assms
  by (auto simp: PreNorm_forward_def Let_def split: option.splits kwargs.splits
      dest: call_fn_trace)

lemma call_module_trace:
  assumes "call_module rt m training r x kw w = Inr (y, w')"
  shows "trace w' = trace w @ [Call r (pos_emb_of kw)]"
  using assms
  by (auto simp: call_module_def split: option.splits dest: PreNorm_forward_trace)

lemma run_self_attns_trace:
  assumes "run_self_attns rt m training p blocks x w = Inr (x', w')"
  shows "trace w' = trace w @ expected_block_calls blocks p"
  using assms
proof (induction blocks arbitrary: x w)
  case Nil
  then show ?case by (simp add: expected_block_calls_def)
next
  case (Cons blk blocks)
  obtain sa sf where blk: "blk = (sa, sf)" by (cases blk)
  from Cons.prems obtain y w1 z w2 where
    c1: "call_module rt m training sa x (SelfKw p) w = Inr (y, w1)"
    and c2: "call_module rt m training sf (tensor_add y x) NoKw w1 = Inr (z, w2)"
    and c3: "run_self_attns rt m training p blocks (tensor_add z (tensor_add y x)) w2
               = Inr (x', w')"
    by (auto simp: blk ebind_Inr)
  from call_module_trace[OF c1] call_module_trace[OF c2] Cons.IH[OF c3]
  show ?case
    by (simp add: blk expected_block_calls_def pos_emb_of_def)
qed

lemma run_layers_trace:
  assumes "run_layers rt m training data msk p groups x w = Inr (x', w')"
  shows "trace w' = trace w @ expected_calls groups p"
  using assms
proof (induction groups arbitrary: x w)
  case Nil
  then show ?case by (simp add: expected_calls_def)
next
  case (Cons g groups)
  obtain ca cf blocks where g: "g = (ca, cf, blocks)" by (cases g)
  from Cons.prems obtain y w1 z w2 x1 w3 where
    c1: "call_module rt m training ca x (CrossKw data msk) w = Inr (y, w1)"
    and c2: "call_module rt m training cf (tensor_add y x) NoKw w1 = Inr (z, w2)"
    and c3: "run_self_attns rt m training p blocks (tensor_add z (tensor_add y x)) w2
               = Inr (x1, w3)"
    and c4: "run_layers rt m training data msk p groups x1 w3 = Inr (x', w')"
    by (auto simp: g ebind_Inr)
  from call_module_trace[OF c1] call_module_trace[OF c2] run_self_attns_trace[OF c3]
    Cons.IH[OF c4]
  show ?case
    by (simp add: g expected_calls_def pos_emb_of_def)
qed

lemma tables_of_simps [simp]:
  "tables_of [] = []"
  "tables_of (MakeTable tab # evs) = tab # tables_of evs"
  "tables_of (Call r p # evs) = tables_of evs"
  "tables_of (evs @ evs') = tables_of evs @ tables_of evs'"
  by (simp_all add: tables_of_def)

lemma tables_of_block_calls [simp]: "tables_of (expected_block_calls blocks p) = []"
  by (induction blocks) (auto simp: expected_block_calls_def)

lemma tables_of_calls [simp]: "tables_of (expected_calls groups p) = []"
proof (induction groups)
  case Nil
  show ?case by (simp add: expected_calls_def)
next
  case (Cons g groups)
  obtain ca cf blocks where g: "g = (ca, cf, blocks)" by (cases g)
  have "expected_calls (g # groups) p =
          [Call ca None, Call cf None] @ expected_block_calls blocks p @ expected_calls groups p"
    by (simp add: expected_calls_def g)
  with Cons show ?case by simp
qed

lemma attention_values_unrotated:
  "map_sum id snd (attention_scores rt a x context msk (Some tab))
     = map_sum id snd (attention_scores rt a x context msk None)"
  by (cases "scale a") (simp_all add: attention_scores_def Let_def)

lemma zeroed_rotary_model: "zeroed rotary_model 2"
  by (simp add: zeroed_def group_zero_def attn_slot_def ff_slot_def get_module_def
      rotary_model_def zero_model_def const_linear_def dropout_ok_def numeral_2_eq_2)

section \<open>The rotary position embedding in the forward pass\<close>

text \<open>
  When the model has a rotary embedding, a pass through lines 343 to 384 of
  \<open>Perceiver.forward\<close> that returns has called the embedding exactly once, before the loop,
  and has made the sublayer calls of the loop in order, passing the table of that one call
  as \<open>pos_emb\<close> to every latent self-attention and to no other sublayer: the cross-attentions
  and the feed-forwards receive none. Inside \<open>Attention.forward\<close> the values are the same
  with and without a table: the rotation reaches the queries and keys only.
\<close>

lemma rotary_table_use:
  assumes "sinu_emb m = Some e"
    and "forward_latents rt m training b ax d msk w = Inr (x, w')"
  shows "trace w' = trace w @ MakeTable (make_table rt e (length (latents m)))
                     # expected_calls (layers m) (Some (make_table rt e (length (latents m))))
       \<and> tables_of (trace w') = tables_of (trace w) @ [make_table rt e (length (latents m))]
       \<and> map_sum id snd (attention_scores rt a y c mk (Some tab))
           = map_sum id snd (attention_scores rt a y c mk None)"
proof -
  let ?tab = "make_table rt e (length (latents m))"
  from assms obtain data where
    "run_layers rt m training data msk (Some ?tab) (layers m) (replicate b (latents m))
       (w\<lparr>trace := trace w @ [MakeTable ?tab]\<rparr>) = Inr (x, w')"
    by (auto simp: forward_latents_def rotary_table_def Let_def ebind_Inr split: if_splits)
  from run_layers_trace[OF this]
  have t: "trace w' = trace w @ MakeTable ?tab # expected_calls (layers m) (Some ?tab)"
    by simp
  then have "tables_of (trace w') = tables_of (trace w) @ [?tab]"
    by simp
  with t attention_values_unrotated[of rt a y c mk tab] show ?thesis
    by simp
qed

lemma rotary_model_calls:
  "map_sum id (\<lambda>(x, w). (x, trace w))
     (forward_latents float_runtime rotary_model True 2 [2] two_examples None start_world)
     = Inr ([[[1, 2]], [[1, 2]]],
            [MakeTable (), Call 0 None, Call 1 None, Call 2 (Some ()), Call 1 None])"
proof -
  have g: "\<forall>g\<in>set (layers rotary_model). group_zero rotary_model 2 g"
    and rows: "\<forall>ex\<in>set (replicate 2 (latents rotary_model)). \<forall>row\<in>set ex. length row = 2"
    using zeroed_rotary_model by (auto simp: zeroed_def)
  from run_layers_zero[OF g rows, where data = "tokens two_examples" and msk = None
      and rt = float_runtime and training = True and p = "Some ()"
      and w = "start_world\<lparr>trace := [MakeTable ()]\<rparr>"]
  obtain w' where
    "run_layers float_runtime rotary_model True (tokens two_examples) None (Some ())
       (layers rotary_model) (replicate 2 (latents rotary_model))
       (start_world\<lparr>trace := [MakeTable ()]\<rparr>)
     = Inr (replicate 2 (latents rotary_model), w')"
    by (auto simp: two_examples_def mask_fits_def)
  then have fl: "forward_latents float_runtime rotary_model True 2 [2] two_examples None
                   start_world = Inr (replicate 2 (latents rotary_model), w')"
    by (simp add: forward_latents_def encode_input_def rotary_table_def Let_def
        rotary_model_def zero_model_def two_examples_def start_world_def float_runtime_def)
  have "sinu_emb rotary_model = Some ()" by (simp add: rotary_model_def)
  from rotary_table_use[OF this fl]
  have "trace w' = [MakeTable (), Call 0 None, Call 1 None, Call 2 (Some ()), Call 1 None]"
    by (simp add: start_world_def rotary_model_def expected_calls_def
        expected_block_calls_def float_runtime_def)
  then show ?thesis
    unfolding fl by (simp add: rotary_model_def zero_model_def numeral_2_eq_2)
qed

section \<open>Claims about a whole forward call\<close>

text \<open>
  C6. The claim: with rotary position embedding enabled, a forward call computes exactly
  one rotation table and passes it to every latent self-attention sublayer of the call and
  to no cross-attention. The code: the call of \<open>Perceiver.forward\<close> on \<open>rotary_model\<close> and
  \<open>two_examples\<close> stops at line 342 with a SyntaxError, before line 375 computes a table.
  The statements after line 342, run with the batch size 2 and the axes of that input, do
  what the claim says: their trace is one call of the embedding, then the two
  cross-attention sublayers without \<open>pos_emb\<close> and the latent self-attention with the table.
\<close>

theorem rotary_forward_fails:
  "Perceiver_forward float_runtime rotary_model True two_examples None start_world
     = Inl SyntaxError
   \<and> map_sum id (\<lambda>(x, w). trace w)
       (forward_latents float_runtime rotary_model True 2 [2] two_examples None start_world)
     = Inr [MakeTable (), Call 0 None, Call 1 None, Call 2 (Some ()), Call 1 None]"
proof -
  from rotary_model_calls obtain x w where
    "forward_latents float_runtime rotary_model True 2 [2] two_examples None start_world
       = Inr (x, w)"
    and "trace w = [MakeTable (), Call 0 None, Call 1 None, Call 2 (Some ()), Call 1 None]"
    by (cases "forward_latents float_runtime rotary_model True 2 [2] two_examples None
                 start_world") auto
  then show ?thesis
    by (simp add: Perceiver_forward_def unpack_shape_def)
qed


end
